theory Spec2Isabelle
  imports Main
begin

section \<open>Python values used by the lead fetcher\<close>

text \<open>
  The fetcher handles JSON text values that may be missing or null: a \<open>string option\<close>,
  with \<open>None\<close> for a missing key and for JSON null alike (the code reads every key with
  \<open>dict.get\<close>, which does not tell the two apart). Strings are byte lists.
\<close>

text \<open>Python truthiness of an optional string: \<open>None\<close> and \<open>""\<close> are falsy.\<close>

fun truthy :: "string option \<Rightarrow> bool" where
  "truthy None = False"
| "truthy (Some s) = (s \<noteq> [])"

text \<open>The Python expression \<open>a or b\<close> on optional strings.\<close>

definition py_or :: "string option \<Rightarrow> string option \<Rightarrow> string option" where
  "py_or a b = (if truthy a then a else b)"

text \<open>The Python expression \<open>a or ""\<close>, whose value is always a string.\<close>

definition or_empty :: "string option \<Rightarrow> string" where
  "or_empty a = (case a of None \<Rightarrow> [] | Some s \<Rightarrow> s)"

text \<open>
  \<open>str.strip()\<close> removes leading and trailing whitespace. The ASCII whitespace
  characters of Python are the codes 9 to 13 and 28 to 32; whitespace outside ASCII is
  several bytes here and is not stripped by this model.
\<close>

definition is_space :: "char \<Rightarrow> bool" where
  "is_space c = (let n = (of_char c :: nat) in (9 \<le> n \<and> n \<le> 13) \<or> (28 \<le> n \<and> n \<le> 32))"

definition strip :: "string \<Rightarrow> string" where
  "strip s = rev (dropWhile is_space (rev (dropWhile is_space s)))"

section \<open>Records of the data model\<close>

text \<open>One entry of a raw lead's \<open>field_data\<close> list: \<open>{"name": ..., "values": [...]}\<close>.\<close>

record field_item =
  item_name :: "string option"
  item_values :: "string option list option"

text \<open>
  A raw lead as the Graph API returns it. \<open>raw.get("field_data", [])\<close> is modelled by
  the list itself, the empty list standing for a missing key.
\<close>

record raw_lead =
  raw_id :: "string option"
  raw_created_time :: "string option"
  field_data :: "field_item list"

text \<open>
  The flat dict that \<open>normalize_lead\<close> returns, which is also the shape of a row of
  the table \<open>seen_leads\<close> (five TEXT columns, NULL being \<open>None\<close>).
\<close>

record lead =
  lead_id :: "string option"
  name :: "string option"
  email :: "string option"
  phone :: "string option"
  created_time :: "string option"

section \<open>normalize_lead\<close>

text \<open>\<open>(item.get("values") or [None])[0]\<close>\<close>

definition first_value :: "field_item \<Rightarrow> string option" where
  "first_value item = (case item_values item of None \<Rightarrow> None | Some [] \<Rightarrow> None | Some (v # _) \<Rightarrow> v)"

text \<open>
  The dict comprehension building \<open>fields\<close>: items are visited in order, an item with a
  falsy name is left out, and a later item overwrites an earlier one of the same name.
\<close>

fun build_fields :: "(string \<rightharpoonup> string option) \<Rightarrow> field_item list \<Rightarrow> (string \<rightharpoonup> string option)" where
  "build_fields m [] = m"
| "build_fields m (item # items) =
     (if truthy (item_name item)
      then build_fields (m(or_empty (item_name item) \<mapsto> first_value item)) items
      else build_fields m items)"

text \<open>\<open>fields.get(k)\<close>: \<open>None\<close> for a missing key and for a key holding \<open>None\<close>.\<close>

definition dict_get :: "(string \<rightharpoonup> string option) \<Rightarrow> string \<Rightarrow> string option" where
  "dict_get m k = (case m k of None \<Rightarrow> None | Some v \<Rightarrow> v)"

definition derive_name :: "(string \<rightharpoonup> string option) \<Rightarrow> string option" where
  "derive_name flds =
     (let nm = dict_get flds ''full_name'' in
      if truthy nm then nm
      else
        let first_n = or_empty (dict_get flds ''first_name'');
            last_n = or_empty (dict_get flds ''last_name'');
            combined = strip (first_n @ '' '' @ last_n)
        in if combined \<noteq> [] then Some combined else None)"

definition derive_phone :: "(string \<rightharpoonup> string option) \<Rightarrow> string option" where
  "derive_phone flds =
     py_or (py_or (dict_get flds ''phone'') (dict_get flds ''phone_number''))
           (dict_get flds ''phone_number_ext'')"

definition normalize_lead :: "raw_lead \<Rightarrow> lead option" where
  "normalize_lead raw =
     (let flds = build_fields Map.empty (field_data raw);
          nm = derive_name flds;
          em = dict_get flds ''email'';
          ph = derive_phone flds
      in if \<not> truthy em \<and> \<not> truthy ph then None
         else Some \<lparr> lead_id = raw_id raw, name = nm, email = em, phone = ph,
                     created_time = raw_created_time raw \<rparr>)"

section \<open>Exceptions and library functions\<close>

text \<open>
  The exceptions that can leave the functions modelled here. \<open>HTTPError\<close> carries the
  status code of the response it was raised for; \<open>RequestException\<close> stands for a
  failure of \<open>session.get\<close> itself (connection error, timeout).
\<close>

datatype exn = TypeError | ValueError | HTTPError int | RequestException

text \<open>
  A \<open>datetime\<close>: its wall-clock reading and, for an aware value, its UTC offset
  (both in seconds).
\<close>

datatype datetime = DateTime int "int option"

text \<open>
  The functions of the Python library that the code calls and that are not part of the
  repository are parameters of the model; \<open>None\<close> means that the call raises.
  \<open>strptime ts fmt\<close> is \<open>datetime.strptime\<close>, \<open>int_of_str\<close> is the builtin
  \<open>int\<close> on a string.
\<close>

record pylib =
  strptime :: "string \<Rightarrow> string \<Rightarrow> datetime option"
  fromisoformat :: "string \<Rightarrow> datetime option"
  int_of_str :: "string \<Rightarrow> int option"

text \<open>
  A library whose calls all raise. It is the library of the concrete runs below, none of
  which parses a timestamp or a \<open>Retry-After\<close> header.
\<close>

definition no_lib :: pylib where
  "no_lib = \<lparr> strptime = (\<lambda>ts fmt. None), fromisoformat = (\<lambda>ts. None), int_of_str = (\<lambda>s. None) \<rparr>"

text \<open>\<open>dt.replace(tzinfo=None)\<close>\<close>

fun replace_tzinfo_None :: "datetime \<Rightarrow> datetime" where
  "replace_tzinfo_None (DateTime w _) = DateTime w None"

text \<open>
  \<open>a < b\<close> on datetimes: two naive values compare by their readings, two aware values
  by their instants, and a naive value against an aware one raises \<open>TypeError\<close>.
\<close>

fun dt_less :: "datetime \<Rightarrow> datetime \<Rightarrow> exn + bool" where
  "dt_less (DateTime a None) (DateTime b None) = Inr (a < b)"
| "dt_less (DateTime a (Some oa)) (DateTime b (Some ob)) = Inr (a - oa < b - ob)"
| "dt_less _ _ = Inl TypeError"

text \<open>
  \<open>parse_iso_timestamp\<close>: every exception inside the \<open>try\<close> block, also the
  \<open>AttributeError\<close> of \<open>None.endswith\<close>, is turned into \<open>ValueError\<close>.
\<close>

definition parse_iso_timestamp :: "pylib \<Rightarrow> string option \<Rightarrow> exn + datetime" where
  "parse_iso_timestamp lib ts =
     (case ts of
        None \<Rightarrow> Inl ValueError
      | Some s \<Rightarrow>
          (case (if s \<noteq> [] \<and> last s = CHR ''Z''
                 then strptime lib s ''%Y-%m-%dT%H:%M:%SZ''
                 else if 5 \<le> length s \<and> s ! (length s - 5) \<in> {CHR ''+'', CHR ''-''}
                 then map_option replace_tzinfo_None (strptime lib s ''%Y-%m-%dT%H:%M:%S%z'')
                 else fromisoformat lib s) of
             None \<Rightarrow> Inl ValueError
           | Some d \<Rightarrow> Inr d))"

section \<open>The table seen_leads (class LeadDB)\<close>

text \<open>
  The table is the list of its rows in insertion order (the \<open>rowid\<close> order of
  \<open>fetch_all\<close>). The connection, the file and storage failures are not modelled.
\<close>

type_synonym seen_leads = "lead list"

text \<open>
  \<open>SELECT 1 FROM seen_leads WHERE lead_id=? OR email=? OR phone=?\<close>. In SQL a
  comparison with NULL is never true, on either side: a NULL column matches no parameter,
  and a \<open>None\<close> bound for \<open>lead_id\<close> matches no row. \<open>main\<close> binds strings for
  \<open>email\<close> and \<open>phone\<close>.
\<close>

definition is_seen :: "seen_leads \<Rightarrow> string option \<Rightarrow> string \<Rightarrow> string \<Rightarrow> bool" where
  "is_seen db lid em ph =
     (\<exists>r \<in> set db. (lid \<noteq> None \<and> lead_id r = lid) \<or> email r = Some em \<or> phone r = Some ph)"

text \<open>The argument of \<open>mark_seen\<close>: a string, a dict, or a value of another type.\<close>

datatype lead_or_id = Str string | Dict lead | Other

text \<open>
  \<open>INSERT OR IGNORE\<close>: the row is appended unless a row with the same primary key
  \<open>lead_id\<close> is there already.
\<close>

definition insert_or_ignore :: "seen_leads \<Rightarrow> lead \<Rightarrow> seen_leads" where
  "insert_or_ignore db row = (if \<exists>r \<in> set db. lead_id r = lead_id row then db else db @ [row])"

definition mark_seen :: "seen_leads \<Rightarrow> lead_or_id \<Rightarrow> exn + seen_leads" where
  "mark_seen db arg =
     (case (case arg of
              Str s \<Rightarrow> Inr \<lparr> lead_id = Some s, name = None, email = None, phone = None,
                             created_time = None \<rparr>
            | Dict d \<Rightarrow> Inr \<lparr> lead_id = lead_id d, name = name d, email = email d,
                              phone = phone d, created_time = created_time d \<rparr>
            | Other \<Rightarrow> Inl TypeError) of
        Inl e \<Rightarrow> Inl e
      | Inr row \<Rightarrow> if \<not> truthy (lead_id row) then Inr db else Inr (insert_or_ignore db row))"

text \<open>\<open>fetch_all(limit)\<close>: a falsy limit (\<open>None\<close> or 0) returns every row.\<close>

definition fetch_all :: "seen_leads \<Rightarrow> int option \<Rightarrow> lead list" where
  "fetch_all db lim =
     (case lim of
        None \<Rightarrow> db
      | Some n \<Rightarrow> if n = 0 then db else if n < 0 then db else take (nat n) db)"

section \<open>The ingestion loop of main\<close>

text \<open>
  The filter on \<open>--since\<close>, applied in offline mode only: \<open>Inr True\<close> when the lead is
  older than the cutoff and is skipped.
\<close>

definition since_skips :: "pylib \<Rightarrow> string option \<Rightarrow> bool \<Rightarrow> lead \<Rightarrow> exn + bool" where
  "since_skips lib since_param offline_mode normalized =
     (if truthy since_param \<and> offline_mode then
        (case parse_iso_timestamp lib (created_time normalized) of
           Inl e \<Rightarrow> Inl e
         | Inr created_dt \<Rightarrow>
             (case parse_iso_timestamp lib since_param of
                Inl e \<Rightarrow> Inl e
              | Inr since_dt \<Rightarrow> dt_less created_dt since_dt))
      else Inr False)"

text \<open>
  The body of the loop \<open>for raw in page\<close>, on the state made of the table and of the
  list \<open>new_leads\<close>. An exception ends the run (\<open>Inl\<close>).
\<close>

definition main_body ::
  "pylib \<Rightarrow> string option \<Rightarrow> bool \<Rightarrow> seen_leads \<times> lead list \<Rightarrow> raw_lead \<Rightarrow>
   exn + seen_leads \<times> lead list" where
  "main_body lib since_param offline_mode st raw =
     (case normalize_lead raw of
        None \<Rightarrow> Inr st
      | Some normalized \<Rightarrow>
          (case since_skips lib since_param offline_mode normalized of
             Inl e \<Rightarrow> Inl e
           | Inr skip \<Rightarrow>
               if skip then Inr st
               else if is_seen (fst st) (lead_id normalized) (or_empty (email normalized))
                         (or_empty (phone normalized))
               then Inr st
               else (case mark_seen (fst st) (Dict normalized) of
                       Inl e \<Rightarrow> Inl e
                     | Inr db' \<Rightarrow> Inr (db', snd st @ [normalized]))))"

text \<open>\<open>for raw in page\<close>\<close>

fun main_page ::
  "pylib \<Rightarrow> string option \<Rightarrow> bool \<Rightarrow> seen_leads \<times> lead list \<Rightarrow> raw_lead list \<Rightarrow>
   exn + seen_leads \<times> lead list" where
  "main_page lib since_param offline_mode st [] = Inr st"
| "main_page lib since_param offline_mode st (raw # page) =
     (case main_body lib since_param offline_mode st raw of
        Inl e \<Rightarrow> Inl e
      | Inr st' \<Rightarrow> main_page lib since_param offline_mode st' page)"

text \<open>\<open>for page in pages\<close>, over the pages that the iterator yields.\<close>

fun main_pages ::
  "pylib \<Rightarrow> string option \<Rightarrow> bool \<Rightarrow> seen_leads \<times> lead list \<Rightarrow> raw_lead list list \<Rightarrow>
   exn + seen_leads \<times> lead list" where
  "main_pages lib since_param offline_mode st [] = Inr st"
| "main_pages lib since_param offline_mode st (page # pages) =
     (case main_page lib since_param offline_mode st page of
        Inl e \<Rightarrow> Inl e
      | Inr st' \<Rightarrow> main_pages lib since_param offline_mode st' pages)"

text \<open>
  One run of the pipeline on a table: \<open>new_leads\<close> starts empty; the result is the
  table after the run and the new leads handed to \<open>write_output\<close>.
\<close>

definition run_pipeline ::
  "pylib \<Rightarrow> string option \<Rightarrow> bool \<Rightarrow> seen_leads \<Rightarrow> raw_lead list list \<Rightarrow>
   exn + seen_leads \<times> lead list" where
  "run_pipeline lib since_param offline_mode db pages =
     main_pages lib since_param offline_mode (db, []) pages"

text \<open>
  Two runs in a row on the same source, the second starting from the table that the
  first one left: the result is the result of the second run.
\<close>

definition run_twice ::
  "pylib \<Rightarrow> string option \<Rightarrow> bool \<Rightarrow> seen_leads \<Rightarrow> raw_lead list list \<Rightarrow>
   exn + seen_leads \<times> lead list" where
  "run_twice lib since_param offline_mode db pages =
     (case run_pipeline lib since_param offline_mode db pages of
        Inl e \<Rightarrow> Inl e
      | Inr (db1, new1) \<Rightarrow> run_pipeline lib since_param offline_mode db1 pages)"

section \<open>fetch_leads\<close>

text \<open>The query parameters of the first request.\<close>

record params =
  p_access_token :: string
  p_fields :: string
  p_limit :: int
  p_since :: "string option"

text \<open>
  The JSON object of a successful response: \<open>data.get("data", [])\<close> reads
  \<open>page_data\<close>, and \<open>data.get("paging", {}).get("next")\<close> reads \<open>paging_next\<close>.
\<close>

record page =
  page_data :: "raw_lead list option"
  paging_next :: "string option"

text \<open>
  What \<open>session.get\<close> gives: a response with its status code, its \<open>Retry-After\<close>
  header and its JSON body, or an exception of the class \<open>RequestException\<close>. A body
  that is not a JSON object is outside the model.
\<close>

datatype response = Response int "string option" page | ConnectionFailed

text \<open>
  The remote source: the answer to the \<open>n\<close>-th request of the run (counted from 0),
  given its URL and its query parameters.
\<close>

type_synonym server = "nat \<Rightarrow> string \<Rightarrow> params option \<Rightarrow> response"

text \<open>
  The observable effects of the fetcher: the number of requests sent and the delays
  passed to \<open>time.sleep\<close>, in order. Logging is not modelled.
\<close>

record net =
  sent :: nat
  slept :: "int list"

datatype step = Continue nat net | Return "exn + page" net

text \<open>
  The \<open>except requests.exceptions.RequestException\<close> clause: retry after a backoff
  while \<open>attempt < max_retries\<close>, re-raise otherwise.
\<close>

definition except_handler :: "int \<Rightarrow> nat \<Rightarrow> exn \<Rightarrow> net \<Rightarrow> step" where
  "except_handler max_retries attempt e st =
     (if int attempt < max_retries
      then Continue (attempt + 1) (st\<lparr>slept := slept st @ [2 ^ attempt]\<rparr>)
      else Return (Inl e) st)"

text \<open>
  The delay after a 429 response: the \<open>Retry-After\<close> header when it is there and
  \<open>int\<close> reads it, \<open>2 ** attempt\<close> otherwise.
\<close>

definition rate_limit_delay :: "pylib \<Rightarrow> nat \<Rightarrow> string option \<Rightarrow> int" where
  "rate_limit_delay lib attempt retry_after =
     (if truthy retry_after
      then (case int_of_str lib (or_empty retry_after) of
              Some d \<Rightarrow> d
            | None \<Rightarrow> 2 ^ attempt)
      else 2 ^ attempt)"

text \<open>
  One pass through the body of \<open>while True\<close>. \<open>time.sleep\<close> raises \<open>ValueError\<close>
  on a negative delay, which no clause catches. \<open>raise_for_status\<close> raises for the
  status codes 400 to 599.
\<close>

definition attempt_step ::
  "server \<Rightarrow> pylib \<Rightarrow> int \<Rightarrow> string \<Rightarrow> params option \<Rightarrow> nat \<Rightarrow> net \<Rightarrow> step" where
  "attempt_step srv lib max_retries url ps attempt st =
     (let st1 = st\<lparr>sent := Suc (sent st)\<rparr> in
      case srv (sent st) url ps of
        ConnectionFailed \<Rightarrow> except_handler max_retries attempt RequestException st1
      | Response status_code retry_after body \<Rightarrow>
          if 500 \<le> status_code then except_handler max_retries attempt (HTTPError status_code) st1
          else if status_code = 429 then
            (let delay = rate_limit_delay lib attempt retry_after
             in if delay < 0 then Return (Inl ValueError) st1
                else
                  (let st2 = st1\<lparr>slept := slept st1 @ [delay]\<rparr>;
                       attempt' = attempt + 1
                   in if max_retries < int attempt'
                      then except_handler max_retries attempt' (HTTPError status_code) st2
                      else Continue attempt' st2))
          else if 400 \<le> status_code \<and> status_code < 600
          then except_handler max_retries attempt (HTTPError status_code) st1
          else Return (Inr body) st1)"

lemma except_handler_Continue:
  "except_handler max_retries attempt e st = Continue a' st' \<Longrightarrow>
   a' = attempt + 1 \<and> int attempt < max_retries"
  by (auto simp: except_handler_def split: if_splits)

lemma attempt_step_Continue:
  "attempt_step srv lib max_retries url ps attempt st = Continue a' st' \<Longrightarrow>
   a' = attempt + 1 \<and> int attempt < max_retries"
  by (auto simp: attempt_step_def Let_def split: response.splits if_splits
      dest!: except_handler_Continue)

text \<open>The loop \<open>while True\<close> for one page, from a given value of \<open>attempt\<close>.\<close>

function fetch_page ::
  "server \<Rightarrow> pylib \<Rightarrow> int \<Rightarrow> string \<Rightarrow> params option \<Rightarrow> nat \<Rightarrow> net \<Rightarrow> (exn + page) \<times> net" where
  "fetch_page srv lib max_retries url ps attempt st =
     (case attempt_step srv lib max_retries url ps attempt st of
        Continue attempt' st' \<Rightarrow> fetch_page srv lib max_retries url ps attempt' st'
      | Return r st' \<Rightarrow> (r, st'))"
  by pat_completeness auto
termination
proof (relation "measure (\<lambda>(srv, lib, max_retries, url, ps, attempt, st). nat (max_retries - int attempt))")
  show "wf (measure (\<lambda>(srv, lib, max_retries, url, ps, attempt, st). nat (max_retries - int attempt)))"
    by simp
next
  fix srv :: server and lib :: pylib and max_retries :: int and url :: string
    and ps :: "params option" and attempt :: nat and st :: net and a' :: nat and st' :: net
  assume "attempt_step srv lib max_retries url ps attempt st = Continue a' st'"
  then have "a' = attempt + 1 \<and> int attempt < max_retries"
    by (rule attempt_step_Continue)
  then show "((srv, lib, max_retries, url, ps, a', st'), (srv, lib, max_retries, url, ps, attempt, st))
      \<in> measure (\<lambda>(srv, lib, max_retries, url, ps, attempt, st). nat (max_retries - int attempt))"
    by simp
qed

text \<open>
  Vocabulary for the retry policy. A response fails, at a given value of \<open>attempt\<close>,
  when the loop body does not return its JSON: a connection failure, or a status code of
  400 or more (for 429, with a delay that \<open>time.sleep\<close> accepts). \<open>raised_for\<close> is
  the exception that the response raises, \<open>backoff\<close> the delay slept before the retry.
\<close>

definition failing :: "pylib \<Rightarrow> nat \<Rightarrow> response \<Rightarrow> bool" where
  "failing lib attempt r =
     (case r of
        ConnectionFailed \<Rightarrow> True
      | Response status_code retry_after body \<Rightarrow>
          400 \<le> status_code \<and>
          (status_code = 429 \<longrightarrow> 0 \<le> rate_limit_delay lib attempt retry_after))"

definition raised_for :: "response \<Rightarrow> exn" where
  "raised_for r =
     (case r of
        ConnectionFailed \<Rightarrow> RequestException
      | Response status_code retry_after body \<Rightarrow> HTTPError status_code)"

definition backoff :: "pylib \<Rightarrow> nat \<Rightarrow> response \<Rightarrow> int" where
  "backoff lib attempt r =
     (case r of
        ConnectionFailed \<Rightarrow> 2 ^ attempt
      | Response status_code retry_after body \<Rightarrow>
          if status_code = 429 then rate_limit_delay lib attempt retry_after else 2 ^ attempt)"

text \<open>
  The generator \<open>fetch_leads\<close> between two \<open>yield\<close>s: the URL to request next, the
  value of the variable \<open>params\<close>, and the effects so far.
\<close>

record gen =
  gen_url :: "string option"
  gen_params :: "params option"
  gen_net :: net

text \<open>What asking the generator for its next page gives.\<close>

datatype gen_result = Yield "raw_lead list" gen | StopIteration net | Raise exn net

text \<open>\<open>data.get("data", [])\<close>\<close>

definition leads_of :: "page \<Rightarrow> raw_lead list" where
  "leads_of data = (case page_data data of None \<Rightarrow> [] | Some leads \<Rightarrow> leads)"

definition base_url_of :: "string \<Rightarrow> string \<Rightarrow> string" where
  "base_url_of api_version form_id =
     ''https://graph.facebook.com/v'' @ api_version @ ''/'' @ form_id @ ''/leads''"

text \<open>The state of the generator before its first page.\<close>

definition fetch_leads ::
  "string \<Rightarrow> string \<Rightarrow> string \<Rightarrow> int \<Rightarrow> string option \<Rightarrow> gen" where
  "fetch_leads access_token form_id api_version lim since =
     \<lparr> gen_url = Some (base_url_of api_version form_id),
       gen_params = Some \<lparr> p_access_token = access_token, p_fields = ''id,created_time,field_data'',
                            p_limit = lim, p_since = (if truthy since then since else None) \<rparr>,
       gen_net = \<lparr> sent = 0, slept = [] \<rparr> \<rparr>"

text \<open>
  One turn of \<open>while url\<close>: the retry loop of the page, then \<open>yield leads\<close>, then the
  two assignments after the \<open>yield\<close>.
\<close>

definition fetch_next :: "server \<Rightarrow> pylib \<Rightarrow> int \<Rightarrow> string \<Rightarrow> gen \<Rightarrow> gen_result" where
  "fetch_next srv lib max_retries base_url g =
     (if \<not> truthy (gen_url g) then StopIteration (gen_net g)
      else
        (let url = or_empty (gen_url g) in
         case fetch_page srv lib max_retries url
                (if url = base_url then gen_params g else None) 0 (gen_net g) of
           (Inl e, st) \<Rightarrow> Raise e st
         | (Inr data, st) \<Rightarrow>
             Yield (leads_of data)
                   \<lparr> gen_url = paging_next data, gen_params = None, gen_net = st \<rparr>))"

text \<open>
  Running the generator to its end: the pages yielded, the exception that ended it if
  one did, and the effects. The loop \<open>while url\<close> need not end, so the result is an
  option, \<open>None\<close> when the generator never stops.
\<close>

partial_function (option) fetch_all_pages ::
  "server \<Rightarrow> pylib \<Rightarrow> int \<Rightarrow> string \<Rightarrow> gen \<Rightarrow> (raw_lead list list \<times> exn option \<times> net) option" where
  "fetch_all_pages srv lib max_retries base_url g =
     (case fetch_next srv lib max_retries base_url g of
        StopIteration st \<Rightarrow> Some ([], None, st)
      | Raise e st \<Rightarrow> Some ([], Some e, st)
      | Yield leads g' \<Rightarrow>
          Option.bind (fetch_all_pages srv lib max_retries base_url g')
            (\<lambda>(pages, r). Some (leads # pages, r)))"

text \<open>
  A paged source: from its \<open>n\<close>-th request on, the server answers the request for
  \<open>url\<close> with the first page, every page but the last names the URL of the next one in
  \<open>paging.next\<close>, and the last page has no (or an empty) \<open>paging.next\<close>. Requests
  after the first carry no query parameters.
\<close>

fun serves :: "server \<Rightarrow> nat \<Rightarrow> string \<Rightarrow> params option \<Rightarrow> page list \<Rightarrow> bool" where
  "serves srv n url ps [] = False"
| "serves srv n url ps (p # rest) =
     ((case srv n url ps of
         ConnectionFailed \<Rightarrow> False
       | Response status_code retry_after body \<Rightarrow> status_code < 400 \<and> body = p) \<and>
      (if rest = [] then \<not> truthy (paging_next p)
       else truthy (paging_next p) \<and> serves srv (Suc n) (or_empty (paging_next p)) None rest))"

section \<open>Properties of normalize_lead\<close>

lemma build_fields_miss:
  "\<forall>item \<in> set items. item_name item \<noteq> Some k \<Longrightarrow> build_fields m items k = m k"
  by (induction items arbitrary: m) (auto simp: or_empty_def split: option.splits)

text \<open>
  C9. The raw lead \<open>L1\<close> with an email field \<open>a@x.com\<close> and a first name \<open>Ann\<close>
  normalizes to the flat lead with that id, the name \<open>Ann\<close>, that email, no phone and
  the same creation time.
\<close>

theorem normalize_lead_scenario:
  "normalize_lead \<lparr> raw_id = Some ''L1'', raw_created_time = Some ''2025-07-01T00:00:00Z'',
     field_data = [\<lparr> item_name = Some ''email'', item_values = Some [Some ''a@x.com''] \<rparr>,
                   \<lparr> item_name = Some ''first_name'', item_values = Some [Some ''Ann''] \<rparr>] \<rparr>
   = Some \<lparr> lead_id = Some ''L1'', name = Some ''Ann'', email = Some ''a@x.com'', phone = None,
            created_time = Some ''2025-07-01T00:00:00Z'' \<rparr>"
  by (simp add: normalize_lead_def derive_name_def derive_phone_def dict_get_def first_value_def
      or_empty_def py_or_def strip_def is_space_def)

text \<open>
  C7, as the claim states it, fails: a raw lead whose only field is an email field
  holding the empty string has an email after flattening (the empty string, which is
  not an absent value), and it is rejected all the same.
\<close>

theorem normalize_lead_empty_email_rejected:
  "dict_get (build_fields Map.empty (field_data
      \<lparr> raw_id = Some ''L1'', raw_created_time = Some ''2025-07-01T00:00:00Z'',
        field_data = [\<lparr> item_name = Some ''email'', item_values = Some [Some []] \<rparr>] \<rparr>)) ''email''
     = Some [] \<and>
   normalize_lead
      \<lparr> raw_id = Some ''L1'', raw_created_time = Some ''2025-07-01T00:00:00Z'',
        field_data = [\<lparr> item_name = Some ''email'', item_values = Some [Some []] \<rparr>] \<rparr> = None"
  by (simp add: normalize_lead_def derive_name_def derive_phone_def dict_get_def first_value_def
      or_empty_def py_or_def strip_def is_space_def)

text \<open>
  C7, amended. The normalizer rejects exactly when, after flattening, the email field and
  the three phone fields are all absent or empty (falsy). This gate does not look at the
  id, the creation time or the name: changing the first two never changes the verdict, and
  an accepted lead carries them as they are, with the derived name. A raw lead with no
  item named \<open>email\<close> and a non-empty phone is accepted, with an absent email.
\<close>

theorem normalize_lead_gate:
  "(normalize_lead raw = None \<longleftrightarrow>
      \<not> truthy (dict_get (build_fields Map.empty (field_data raw)) ''email'') \<and>
      \<not> truthy (dict_get (build_fields Map.empty (field_data raw)) ''phone'') \<and>
      \<not> truthy (dict_get (build_fields Map.empty (field_data raw)) ''phone_number'') \<and>
      \<not> truthy (dict_get (build_fields Map.empty (field_data raw)) ''phone_number_ext'')) \<and>
   (normalize_lead (raw\<lparr>raw_id := i, raw_created_time := t\<rparr>) = None \<longleftrightarrow>
      normalize_lead raw = None) \<and>
   (normalize_lead raw = Some n \<longrightarrow>
      lead_id n = raw_id raw \<and> created_time n = raw_created_time raw \<and>
      name n = derive_name (build_fields Map.empty (field_data raw))) \<and>
   ((\<forall>item \<in> set (field_data raw). item_name item \<noteq> Some ''email'') \<and>
    truthy (derive_phone (build_fields Map.empty (field_data raw))) \<longrightarrow>
      normalize_lead raw =
        Some \<lparr> lead_id = raw_id raw, name = derive_name (build_fields Map.empty (field_data raw)),
               email = None, phone = derive_phone (build_fields Map.empty (field_data raw)),
               created_time = raw_created_time raw \<rparr>)"
proof -
  let ?f = "build_fields Map.empty (field_data raw)"
  have gate: "normalize_lead raw = None \<longleftrightarrow>
      \<not> truthy (dict_get ?f ''email'') \<and> \<not> truthy (dict_get ?f ''phone'') \<and>
      \<not> truthy (dict_get ?f ''phone_number'') \<and> \<not> truthy (dict_get ?f ''phone_number_ext'')"
    by (auto simp: normalize_lead_def derive_phone_def py_or_def Let_def)
  have indep: "normalize_lead (raw\<lparr>raw_id := i, raw_created_time := t\<rparr>) = None \<longleftrightarrow>
      normalize_lead raw = None"
    by (simp add: normalize_lead_def Let_def)
  have carried: "normalize_lead raw = Some n \<longrightarrow>
      lead_id n = raw_id raw \<and> created_time n = raw_created_time raw \<and> name n = derive_name ?f"
    by (auto simp: normalize_lead_def Let_def split: if_splits)
  have phone_only: "(\<forall>item \<in> set (field_data raw). item_name item \<noteq> Some ''email'') \<and>
      truthy (derive_phone ?f) \<longrightarrow>
      normalize_lead raw = Some \<lparr> lead_id = raw_id raw, name = derive_name ?f, email = None,
        phone = derive_phone ?f, created_time = raw_created_time raw \<rparr>"
  proof (intro impI, elim conjE)
    assume no_email: "\<forall>item \<in> set (field_data raw). item_name item \<noteq> Some ''email''"
      and ph: "truthy (derive_phone ?f)"
    from no_email have "?f ''email'' = None"
      by (simp add: build_fields_miss)
    then have "dict_get ?f ''email'' = None"
      by (simp add: dict_get_def)
    with ph show "normalize_lead raw = Some \<lparr> lead_id = raw_id raw, name = derive_name ?f,
        email = None, phone = derive_phone ?f, created_time = raw_created_time raw \<rparr>"
      by (simp add: normalize_lead_def Let_def)
  qed
  from gate indep carried phone_only show ?thesis by blast
qed

theorem normalize_lead_gate_witness:
  "item_name \<lparr> item_name = Some ''phone_number'', item_values = Some [Some ''555''] \<rparr>
     \<noteq> Some ''email'' \<and>
   truthy (derive_phone (build_fields Map.empty
     [\<lparr> item_name = Some ''phone_number'', item_values = Some [Some ''555''] \<rparr>])) \<and>
   normalize_lead \<lparr> raw_id = None, raw_created_time = None,
     field_data = [\<lparr> item_name = Some ''phone_number'', item_values = Some [Some ''555''] \<rparr>] \<rparr>
   = Some \<lparr> lead_id = None, name = None, email = None, phone = Some ''555'',
            created_time = None \<rparr>"
  using normalize_lead_gate [of
      "\<lparr> raw_id = None, raw_created_time = None,
         field_data = [\<lparr> item_name = Some ''phone_number'', item_values = Some [Some ''555''] \<rparr>] \<rparr>"
      None None
      "\<lparr> lead_id = None, name = None, email = None, phone = Some ''555'', created_time = None \<rparr>"]
  by (simp add: derive_name_def derive_phone_def dict_get_def first_value_def
      or_empty_def py_or_def strip_def is_space_def)

section \<open>Properties of the table\<close>

text \<open>
  C6. \<open>mark_seen\<close> is an insert keyed by \<open>lead_id\<close> that never updates: when a row
  with the id is there already, the call (with a dict or with a bare id) leaves the table
  as it is; when the id of the dict is absent (or empty) the call does nothing; otherwise
  the row is appended. Whatever the argument, the rows present before the call are
  unchanged after it, and a second call with the same argument changes nothing.
\<close>

theorem mark_seen_insert_once:
  "(lead_id d = Some i \<and> (\<exists>r \<in> set db. lead_id r = Some i) \<longrightarrow> mark_seen db (Dict d) = Inr db) \<and>
   ((\<exists>r \<in> set db. lead_id r = Some i) \<longrightarrow> mark_seen db (Str i) = Inr db) \<and>
   (\<not> truthy (lead_id d) \<longrightarrow> mark_seen db (Dict d) = Inr db) \<and>
   (truthy (lead_id d) \<and> \<not> (\<exists>r \<in> set db. lead_id r = lead_id d) \<longrightarrow>
      mark_seen db (Dict d) = Inr (db @ [d])) \<and>
   (mark_seen db arg = Inr db' \<longrightarrow> take (length db) db' = db \<and> mark_seen db' arg = Inr db')"
  by (cases arg) (auto simp: mark_seen_def insert_or_ignore_def split: if_splits)

theorem mark_seen_insert_once_witness:
  "mark_seen
     [\<lparr> lead_id = Some ''L1'', name = Some ''Ann'', email = Some ''a@x.com'', phone = None,
        created_time = Some ''2025-07-01T00:00:00Z'' \<rparr>]
     (Dict \<lparr> lead_id = Some ''L1'', name = Some ''Bob'', email = Some ''b@x.com'',
             phone = Some ''555'', created_time = None \<rparr>)
   = Inr [\<lparr> lead_id = Some ''L1'', name = Some ''Ann'', email = Some ''a@x.com'', phone = None,
            created_time = Some ''2025-07-01T00:00:00Z'' \<rparr>] \<and>
   mark_seen
     [\<lparr> lead_id = Some ''L1'', name = Some ''Ann'', email = Some ''a@x.com'', phone = None,
        created_time = Some ''2025-07-01T00:00:00Z'' \<rparr>]
     (Str ''L1'')
   = Inr [\<lparr> lead_id = Some ''L1'', name = Some ''Ann'', email = Some ''a@x.com'', phone = None,
            created_time = Some ''2025-07-01T00:00:00Z'' \<rparr>] \<and>
   mark_seen
     [\<lparr> lead_id = Some ''L1'', name = Some ''Ann'', email = Some ''a@x.com'', phone = None,
        created_time = Some ''2025-07-01T00:00:00Z'' \<rparr>]
     (Dict \<lparr> lead_id = None, name = Some ''Bob'', email = Some ''b@x.com'',
             phone = Some ''555'', created_time = None \<rparr>)
   = Inr [\<lparr> lead_id = Some ''L1'', name = Some ''Ann'', email = Some ''a@x.com'', phone = None,
            created_time = Some ''2025-07-01T00:00:00Z'' \<rparr>]"
  using mark_seen_insert_once [of
      "\<lparr> lead_id = Some ''L1'', name = Some ''Bob'', email = Some ''b@x.com'',
         phone = Some ''555'', created_time = None \<rparr>"
      "''L1''"
      "[\<lparr> lead_id = Some ''L1'', name = Some ''Ann'', email = Some ''a@x.com'', phone = None,
         created_time = Some ''2025-07-01T00:00:00Z'' \<rparr>]"
      "Str ''L1''"
      "[\<lparr> lead_id = Some ''L1'', name = Some ''Ann'', email = Some ''a@x.com'', phone = None,
         created_time = Some ''2025-07-01T00:00:00Z'' \<rparr>]"]
    mark_seen_insert_once [of
      "\<lparr> lead_id = None, name = Some ''Bob'', email = Some ''b@x.com'',
         phone = Some ''555'', created_time = None \<rparr>"
      "''L1''"
      "[\<lparr> lead_id = Some ''L1'', name = Some ''Ann'', email = Some ''a@x.com'', phone = None,
         created_time = Some ''2025-07-01T00:00:00Z'' \<rparr>]"
      "Str ''L1''"
      "[\<lparr> lead_id = Some ''L1'', name = Some ''Ann'', email = Some ''a@x.com'', phone = None,
         created_time = Some ''2025-07-01T00:00:00Z'' \<rparr>]"]
  by simp

section \<open>Properties of the ingestion loop\<close>

lemma is_seen_mono:
  "set db \<subseteq> set db' \<Longrightarrow> is_seen db lid em ph \<Longrightarrow> is_seen db' lid em ph"
  by (auto simp: is_seen_def)

lemma is_seen_id:
  "r \<in> set db \<Longrightarrow> truthy (lead_id r) \<Longrightarrow> is_seen db (lead_id r) em ph"
  by (cases "lead_id r") (auto simp: is_seen_def)

lemma mark_seen_Dict:
  "mark_seen db (Dict n) = Inr (if \<not> truthy (lead_id n) then db else insert_or_ignore db n)"
  by (cases n) (simp add: mark_seen_def)

lemma insert_or_ignore_new:
  "\<not> is_seen db (lead_id n) em ph \<Longrightarrow> truthy (lead_id n) \<Longrightarrow> insert_or_ignore db n = db @ [n]"
  by (cases "lead_id n") (auto simp: insert_or_ignore_def is_seen_def)

text \<open>What one turn of the loop does to the state, case by case.\<close>

lemma main_body_skip:
  "normalize_lead raw = None \<Longrightarrow> main_body lib since_param offline_mode st raw = Inr st"
  by (simp add: main_body_def)

lemma main_body_seen:
  "normalize_lead raw = Some n \<Longrightarrow> since_skips lib since_param offline_mode n = Inr b \<Longrightarrow>
   b \<or> is_seen (fst st) (lead_id n) (or_empty (email n)) (or_empty (phone n)) \<Longrightarrow>
   main_body lib since_param offline_mode st raw = Inr st"
  by (auto simp: main_body_def)

lemma main_body_new:
  "normalize_lead raw = Some n \<Longrightarrow> since_skips lib since_param offline_mode n = Inr False \<Longrightarrow>
   \<not> is_seen db (lead_id n) (or_empty (email n)) (or_empty (phone n)) \<Longrightarrow>
   main_body lib since_param offline_mode (db, new) raw =
     Inr (if truthy (lead_id n) then db @ [n] else db, new @ [n])"
  by (simp add: main_body_def mark_seen_Dict insert_or_ignore_new)

lemma main_body_Inr:
  assumes "main_body lib since_param offline_mode (db, new) raw = Inr (db', new')"
  shows "(db' = db \<and> new' = new) \<or>
         (\<exists>n. normalize_lead raw = Some n \<and> since_skips lib since_param offline_mode n = Inr False \<and>
              \<not> is_seen db (lead_id n) (or_empty (email n)) (or_empty (phone n)) \<and>
              db' = (if truthy (lead_id n) then db @ [n] else db) \<and> new' = new @ [n])"
proof (cases "normalize_lead raw")
  case None
  with assms show ?thesis by (simp add: main_body_def)
next
  case (Some n)
  show ?thesis
  proof (cases "since_skips lib since_param offline_mode n")
    case (Inl e)
    with Some assms show ?thesis by (simp add: main_body_def)
  next
    case (Inr b)
    show ?thesis
    proof (cases "b \<or> is_seen db (lead_id n) (or_empty (email n)) (or_empty (phone n))")
      case True
      with Some Inr have "main_body lib since_param offline_mode (db, new) raw = Inr (db, new)"
        by (intro main_body_seen) auto
      with assms show ?thesis by simp
    next
      case False
      with Some Inr have "main_body lib since_param offline_mode (db, new) raw =
          Inr (if truthy (lead_id n) then db @ [n] else db, new @ [n])"
        by (intro main_body_new) auto
      with assms Some Inr False show ?thesis by auto
    qed
  qed
qed

lemma main_body_grows:
  "main_body lib since_param offline_mode (db, new) raw = Inr (db', new') \<Longrightarrow>
   set db \<subseteq> set db' \<and> set new \<subseteq> set new'"
  by (drule main_body_Inr) (auto split: if_splits)

lemma main_page_grows:
  "main_page lib since_param offline_mode (db, new) rs = Inr (db', new') \<Longrightarrow>
   set db \<subseteq> set db' \<and> set new \<subseteq> set new'"
proof (induction rs arbitrary: db new)
  case Nil
  then show ?case by simp
next
  case (Cons raw rs)
  from Cons.prems obtain dba newa where
    a: "main_body lib since_param offline_mode (db, new) raw = Inr (dba, newa)" and
    b: "main_page lib since_param offline_mode (dba, newa) rs = Inr (db', new')"
    by (auto split: sum.splits)
  from main_body_grows [OF a] Cons.IH [OF b] show ?case by blast
qed

lemma main_page_append:
  "main_page lib since_param offline_mode st (rs @ rs') =
     (case main_page lib since_param offline_mode st rs of
        Inl e \<Rightarrow> Inl e
      | Inr st' \<Rightarrow> main_page lib since_param offline_mode st' rs')"
  by (induction rs arbitrary: st) (auto split: sum.splits)

lemma main_pages_concat:
  "main_pages lib since_param offline_mode st pages =
     main_page lib since_param offline_mode st (concat pages)"
  by (induction pages arbitrary: st) (auto simp: main_page_append split: sum.splits)

lemma normalize_lead_contact:
  "normalize_lead raw = Some n \<Longrightarrow> truthy (email n) \<or> truthy (phone n)"
  by (auto simp: normalize_lead_def Let_def split: if_splits)

text \<open>A turn of the loop on a table that already holds everything the first run left.\<close>

lemma main_body_second:
  assumes run1: "main_body lib since_param offline_mode (db0, acc) raw = Inr (dba, acca)"
    and ids: "\<forall>n. normalize_lead raw = Some n \<longrightarrow> truthy (lead_id n)"
    and sub: "set dba \<subseteq> set D"
  shows "main_body lib since_param offline_mode (D, acc2) raw = Inr (D, acc2)"
proof (cases "normalize_lead raw")
  case None
  then show ?thesis by (simp add: main_body_def)
next
  case (Some n)
  with ids have id: "truthy (lead_id n)" by simp
  from run1 Some obtain b where b: "since_skips lib since_param offline_mode n = Inr b"
    by (cases "since_skips lib since_param offline_mode n") (auto simp: main_body_def)
  from main_body_grows [OF run1] sub have sub0: "set db0 \<subseteq> set D" by blast
  have "b \<or> is_seen D (lead_id n) (or_empty (email n)) (or_empty (phone n))"
  proof (cases "b \<or> is_seen db0 (lead_id n) (or_empty (email n)) (or_empty (phone n))")
    case True
    with sub0 show ?thesis by (auto dest: is_seen_mono)
  next
    case False
    with Some b have "main_body lib since_param offline_mode (db0, acc) raw =
        Inr (if truthy (lead_id n) then db0 @ [n] else db0, acc @ [n])"
      by (intro main_body_new) auto
    with run1 id have "dba = db0 @ [n]" by simp
    with sub have "n \<in> set D" by auto
    with id show ?thesis by (simp add: is_seen_id)
  qed
  with Some b have "main_body lib since_param offline_mode (D, acc2) raw = Inr (D, acc2)"
    by (intro main_body_seen) auto
  then show ?thesis .
qed

lemma main_page_second:
  assumes "main_page lib since_param offline_mode (db0, acc) rs = Inr (db1, new1)"
    and "\<forall>raw \<in> set rs. \<forall>n. normalize_lead raw = Some n \<longrightarrow> truthy (lead_id n)"
    and "set db1 \<subseteq> set D"
  shows "main_page lib since_param offline_mode (D, acc2) rs = Inr (D, acc2)"
  using assms
proof (induction rs arbitrary: db0 acc)
  case Nil
  then show ?case by simp
next
  case (Cons raw rs)
  from Cons.prems(1) obtain dba newa where
    a: "main_body lib since_param offline_mode (db0, acc) raw = Inr (dba, newa)" and
    b: "main_page lib since_param offline_mode (dba, newa) rs = Inr (db1, new1)"
    by (auto split: sum.splits)
  from main_page_grows [OF b] Cons.prems(3) have "set dba \<subseteq> set D" by blast
  with a Cons.prems(2) have "main_body lib since_param offline_mode (D, acc2) raw = Inr (D, acc2)"
    by (intro main_body_second [where ?db0.0 = db0 and acc = acc and dba = dba and acca = newa]) auto
  moreover from b Cons.prems(2,3) have "main_page lib since_param offline_mode (D, acc2) rs = Inr (D, acc2)"
    by (intro Cons.IH [where ?db0.0 = dba and acc = newa]) auto
  ultimately show ?case by simp
qed


lemma normalize_lead_id:
  "normalize_lead raw = Some n \<Longrightarrow> lead_id n = raw_id raw"
  by (auto simp: normalize_lead_def Let_def split: if_splits)

lemmas eval_defs = run_pipeline_def main_body_def since_skips_def normalize_lead_def
  derive_name_def derive_phone_def dict_get_def first_value_def or_empty_def py_or_def strip_def
  is_space_def mark_seen_def insert_or_ignore_def is_seen_def

text \<open>
  C2, as the claim states it, fails: a raw lead without an id that has an email is
  emitted by the first run and never recorded (\<open>mark_seen\<close> returns at once on a
  falsy id), so the second run on the same source and the same table emits it again.
\<close>

theorem second_run_repeats_lead_without_id:
  "run_pipeline no_lib None False []
     [[\<lparr> raw_id = None, raw_created_time = Some ''2025-07-01T00:00:00Z'',
         field_data = [\<lparr> item_name = Some ''email'', item_values = Some [Some ''a@x.com''] \<rparr>] \<rparr>]]
   = Inr ([], [\<lparr> lead_id = None, name = None, email = Some ''a@x.com'', phone = None,
                  created_time = Some ''2025-07-01T00:00:00Z'' \<rparr>]) \<and>
   run_twice no_lib None False []
     [[\<lparr> raw_id = None, raw_created_time = Some ''2025-07-01T00:00:00Z'',
         field_data = [\<lparr> item_name = Some ''email'', item_values = Some [Some ''a@x.com''] \<rparr>] \<rparr>]]
   = Inr ([], [\<lparr> lead_id = None, name = None, email = Some ''a@x.com'', phone = None,
                  created_time = Some ''2025-07-01T00:00:00Z'' \<rparr>])"
  by (simp add: run_twice_def eval_defs)

text \<open>
  C2, amended. When every raw lead of the source that passes normalization has a
  non-empty id, and a first run on the source ends without an exception, a second run on
  the same source, started from the table the first one left, yields no new lead and
  leaves the table as it is.
\<close>

theorem second_run_yields_nothing:
  assumes "\<forall>raw \<in> set (concat pages). normalize_lead raw \<noteq> None \<longrightarrow> truthy (raw_id raw)"
    and "run_pipeline lib since_param offline_mode db pages = Inr (db1, new1)"
  shows "run_twice lib since_param offline_mode db pages = Inr (db1, [])"
proof -
  from assms(1) have ids: "\<forall>raw \<in> set (concat pages). \<forall>n. normalize_lead raw = Some n \<longrightarrow> truthy (lead_id n)"
    by (auto simp: normalize_lead_id)
  from assms(2) have "main_page lib since_param offline_mode (db, []) (concat pages) = Inr (db1, new1)"
    by (simp add: run_pipeline_def main_pages_concat)
  with ids have "main_page lib since_param offline_mode (db1, []) (concat pages) = Inr (db1, [])"
    by (intro main_page_second [where ?db0.0 = db and acc = "[]" and ?db1.0 = db1 and ?new1.0 = new1]) auto
  with assms(2) show ?thesis
    by (simp add: run_twice_def run_pipeline_def main_pages_concat)
qed

theorem second_run_yields_nothing_witness:
  "run_pipeline no_lib None False []
     [[\<lparr> raw_id = Some ''L1'', raw_created_time = None,
         field_data = [\<lparr> item_name = Some ''email'', item_values = Some [Some ''a@x.com''] \<rparr>] \<rparr>,
       \<lparr> raw_id = Some ''L2'', raw_created_time = None,
         field_data = [\<lparr> item_name = Some ''email'', item_values = Some [Some ''a@x.com''] \<rparr>] \<rparr>]]
   = Inr ([\<lparr> lead_id = Some ''L1'', name = None, email = Some ''a@x.com'', phone = None, created_time = None \<rparr>],
          [\<lparr> lead_id = Some ''L1'', name = None, email = Some ''a@x.com'', phone = None, created_time = None \<rparr>]) \<and>
   run_twice no_lib None False []
     [[\<lparr> raw_id = Some ''L1'', raw_created_time = None,
         field_data = [\<lparr> item_name = Some ''email'', item_values = Some [Some ''a@x.com''] \<rparr>] \<rparr>,
       \<lparr> raw_id = Some ''L2'', raw_created_time = None,
         field_data = [\<lparr> item_name = Some ''email'', item_values = Some [Some ''a@x.com''] \<rparr>] \<rparr>]]
   = Inr ([\<lparr> lead_id = Some ''L1'', name = None, email = Some ''a@x.com'', phone = None, created_time = None \<rparr>],
          [])"
  using second_run_yields_nothing [of
     "[[\<lparr> raw_id = Some ''L1'', raw_created_time = None,
         field_data = [\<lparr> item_name = Some ''email'', item_values = Some [Some ''a@x.com''] \<rparr>] \<rparr>,
       \<lparr> raw_id = Some ''L2'', raw_created_time = None,
         field_data = [\<lparr> item_name = Some ''email'', item_values = Some [Some ''a@x.com''] \<rparr>] \<rparr>]]"
     no_lib None False "[]"
     "[\<lparr> lead_id = Some ''L1'', name = None, email = Some ''a@x.com'', phone = None, created_time = None \<rparr>]"
     "[\<lparr> lead_id = Some ''L1'', name = None, email = Some ''a@x.com'', phone = None, created_time = None \<rparr>]"]
  by (simp add: run_pipeline_def main_body_def since_skips_def normalize_lead_def derive_name_def
  derive_phone_def dict_get_def first_value_def or_empty_def py_or_def strip_def is_space_def
  mark_seen_def insert_or_ignore_def is_seen_def)



text \<open>
  C3, as the claim states it, fails: that A is processed first does not make A a row of
  the table. In the first run below the table holds an older lead L0 with the phone 111.
  A (id L1, email \<open>a@x.com\<close>, phone 111) is processed first and is skipped as a
  duplicate of L0 by its phone, so no row has its email; B (id L2, the same email, phone
  222) then matches no row, is ingested and is the only new lead. In the second run A has
  the same email and no id: it is emitted but \<open>mark_seen\<close> records nothing for it, so
  B is ingested after it and the only row is the row of B.
\<close>

theorem earlier_lead_not_stored_later_lead_ingested:
  "normalize_lead
     \<lparr> raw_id = Some ''L1'', raw_created_time = None,
       field_data = [\<lparr> item_name = Some ''email'', item_values = Some [Some ''a@x.com''] \<rparr>,
                     \<lparr> item_name = Some ''phone'', item_values = Some [Some ''111''] \<rparr>] \<rparr>
   = Some \<lparr> lead_id = Some ''L1'', name = None, email = Some ''a@x.com'', phone = Some ''111'',
            created_time = None \<rparr> \<and>
   run_pipeline no_lib None False
     [\<lparr> lead_id = Some ''L0'', name = None, email = Some ''r@x.com'', phone = Some ''111'',
        created_time = None \<rparr>]
     [[\<lparr> raw_id = Some ''L1'', raw_created_time = None,
         field_data = [\<lparr> item_name = Some ''email'', item_values = Some [Some ''a@x.com''] \<rparr>,
                       \<lparr> item_name = Some ''phone'', item_values = Some [Some ''111''] \<rparr>] \<rparr>,
       \<lparr> raw_id = Some ''L2'', raw_created_time = None,
         field_data = [\<lparr> item_name = Some ''email'', item_values = Some [Some ''a@x.com''] \<rparr>,
                       \<lparr> item_name = Some ''phone'', item_values = Some [Some ''222''] \<rparr>] \<rparr>]]
   = Inr ([\<lparr> lead_id = Some ''L0'', name = None, email = Some ''r@x.com'', phone = Some ''111'',
             created_time = None \<rparr>,
           \<lparr> lead_id = Some ''L2'', name = None, email = Some ''a@x.com'', phone = Some ''222'',
             created_time = None \<rparr>],
          [\<lparr> lead_id = Some ''L2'', name = None, email = Some ''a@x.com'', phone = Some ''222'',
             created_time = None \<rparr>]) \<and>
   run_pipeline no_lib None False []
     [[\<lparr> raw_id = None, raw_created_time = None,
         field_data = [\<lparr> item_name = Some ''email'', item_values = Some [Some ''a@x.com''] \<rparr>] \<rparr>,
       \<lparr> raw_id = Some ''L2'', raw_created_time = None,
         field_data = [\<lparr> item_name = Some ''email'', item_values = Some [Some ''a@x.com''] \<rparr>,
                       \<lparr> item_name = Some ''phone'', item_values = Some [Some ''222''] \<rparr>] \<rparr>]]
   = Inr ([\<lparr> lead_id = Some ''L2'', name = None, email = Some ''a@x.com'', phone = Some ''222'',
             created_time = None \<rparr>],
          [\<lparr> lead_id = None, name = None, email = Some ''a@x.com'', phone = None,
             created_time = None \<rparr>,
           \<lparr> lead_id = Some ''L2'', name = None, email = Some ''a@x.com'', phone = Some ''222'',
             created_time = None \<rparr>])"
  by (simp add: eval_defs)

text \<open>
  C3, amended. Let A and B be leads with the same non-empty email, and let A be ingested
  first: A has a non-empty id, matches no row of the table when it is processed, and is
  not dropped by the \<open>--since\<close> filter (which raises for neither lead). Then the row
  of A is appended and A is a new lead. B is skipped whenever it is processed later,
  whatever the rows and new leads added in between and whatever its own id and phone. A
  run on A followed by B, in one page or in two, leaves the table with the row of A only
  and emits A only.
\<close>

theorem same_email_later_lead_skipped:
  assumes "normalize_lead rawA = Some a" and "normalize_lead rawB = Some b"
    and "email a = Some e" and "email b = Some e" and "e \<noteq> []"
    and "truthy (lead_id a)"
    and "since_skips lib since_param offline_mode a = Inr False"
    and "since_skips lib since_param offline_mode b = Inr skip_b"
    and "\<not> is_seen db (lead_id a) (or_empty (email a)) (or_empty (phone a))"
  shows "main_body lib since_param offline_mode (db, new) rawA = Inr (db @ [a], new @ [a]) \<and>
         main_body lib since_param offline_mode (db @ [a] @ later, new') rawB = Inr (db @ [a] @ later, new') \<and>
         run_pipeline lib since_param offline_mode db [[rawA, rawB]] = Inr (db @ [a], [a]) \<and>
         run_pipeline lib since_param offline_mode db [[rawA], [rawB]] = Inr (db @ [a], [a])"
proof -
  have stepA: "main_body lib since_param offline_mode (db, acc) rawA = Inr (db @ [a], acc @ [a])" for acc
    using assms(1,6,7,9) by (simp add: main_body_new)
  have "is_seen (db @ [a] @ ext) (lead_id b) (or_empty (email b)) (or_empty (phone b))" for ext
    using assms(3,4) by (auto simp: is_seen_def or_empty_def)
  then have stepB: "main_body lib since_param offline_mode (db @ [a] @ ext, acc) rawB = Inr (db @ [a] @ ext, acc)"
    for ext acc
    using assms(2,8) by (intro main_body_seen [where n = b and b = skip_b]) auto
  from stepB [of "[]"] have stepB0: "main_body lib since_param offline_mode (db @ [a], acc) rawB = Inr (db @ [a], acc)"
    for acc by simp
  from stepA stepB0 have runs: "run_pipeline lib since_param offline_mode db [[rawA, rawB]] = Inr (db @ [a], [a]) \<and>
      run_pipeline lib since_param offline_mode db [[rawA], [rawB]] = Inr (db @ [a], [a])"
    by (simp add: run_pipeline_def)
  from stepA [of new] stepB [of later new'] runs show ?thesis
    by blast
qed

theorem same_email_later_lead_skipped_witness:
  "\<not> is_seen [] (Some ''L1'') ''a@x.com'' [] \<and>
   run_pipeline no_lib None False []
     [[\<lparr> raw_id = Some ''L1'', raw_created_time = Some ''2025-07-01T00:00:00Z'',
         field_data = [\<lparr> item_name = Some ''email'', item_values = Some [Some ''a@x.com''] \<rparr>,
                       \<lparr> item_name = Some ''phone'', item_values = Some [Some ''111''] \<rparr>] \<rparr>,
       \<lparr> raw_id = Some ''L2'', raw_created_time = None,
         field_data = [\<lparr> item_name = Some ''email'', item_values = Some [Some ''a@x.com''] \<rparr>,
                       \<lparr> item_name = Some ''phone'', item_values = Some [Some ''222''] \<rparr>] \<rparr>]]
   = Inr ([\<lparr> lead_id = Some ''L1'', name = None, email = Some ''a@x.com'', phone = Some ''111'',
             created_time = Some ''2025-07-01T00:00:00Z'' \<rparr>],
          [\<lparr> lead_id = Some ''L1'', name = None, email = Some ''a@x.com'', phone = Some ''111'',
             created_time = Some ''2025-07-01T00:00:00Z'' \<rparr>])"
  using same_email_later_lead_skipped [of
     "\<lparr> raw_id = Some ''L1'', raw_created_time = Some ''2025-07-01T00:00:00Z'',
         field_data = [\<lparr> item_name = Some ''email'', item_values = Some [Some ''a@x.com''] \<rparr>,
                       \<lparr> item_name = Some ''phone'', item_values = Some [Some ''111''] \<rparr>] \<rparr>"
     "\<lparr> lead_id = Some ''L1'', name = None, email = Some ''a@x.com'', phone = Some ''111'',
             created_time = Some ''2025-07-01T00:00:00Z'' \<rparr>"
     "\<lparr> raw_id = Some ''L2'', raw_created_time = None,
         field_data = [\<lparr> item_name = Some ''email'', item_values = Some [Some ''a@x.com''] \<rparr>,
                       \<lparr> item_name = Some ''phone'', item_values = Some [Some ''222''] \<rparr>] \<rparr>"
     "\<lparr> lead_id = Some ''L2'', name = None, email = Some ''a@x.com'', phone = Some ''222'',
             created_time = None \<rparr>"
     "''a@x.com''" no_lib None False False "[]" "[]" "[]" "[]"]
  by (simp add: since_skips_def normalize_lead_def derive_name_def
  derive_phone_def dict_get_def first_value_def or_empty_def py_or_def strip_def is_space_def is_seen_def)

text \<open>
  C1, as the claim states it, fails: \<open>is_seen\<close> compares by equality only. The lead
  L1 has the empty string as its email (the source sent an empty email field) and the
  phone 111; its row stores that empty string. The lead L2 has no email at all and the
  phone 222; \<open>main\<close> looks it up with the email \<open>""\<close>, which equals the stored
  email of L1, so L2 is reported as seen and dropped, although neither its id nor its
  phone matches.
\<close>

theorem empty_email_row_matches:
  "normalize_lead \<lparr> raw_id = Some ''L1'', raw_created_time = None,
      field_data = [\<lparr> item_name = Some ''email'', item_values = Some [Some []] \<rparr>,
                    \<lparr> item_name = Some ''phone'', item_values = Some [Some ''111''] \<rparr>] \<rparr>
     = Some \<lparr> lead_id = Some ''L1'', name = None, email = Some [], phone = Some ''111'',
              created_time = None \<rparr> \<and>
   normalize_lead \<lparr> raw_id = Some ''L2'', raw_created_time = None,
      field_data = [\<lparr> item_name = Some ''phone'', item_values = Some [Some ''222''] \<rparr>] \<rparr>
     = Some \<lparr> lead_id = Some ''L2'', name = None, email = None, phone = Some ''222'',
              created_time = None \<rparr> \<and>
   is_seen [\<lparr> lead_id = Some ''L1'', name = None, email = Some [], phone = Some ''111'',
              created_time = None \<rparr>] (Some ''L2'') [] ''222'' \<and>
   run_pipeline no_lib None False []
     [[\<lparr> raw_id = Some ''L1'', raw_created_time = None,
         field_data = [\<lparr> item_name = Some ''email'', item_values = Some [Some []] \<rparr>,
                       \<lparr> item_name = Some ''phone'', item_values = Some [Some ''111''] \<rparr>] \<rparr>,
       \<lparr> raw_id = Some ''L2'', raw_created_time = None,
         field_data = [\<lparr> item_name = Some ''phone'', item_values = Some [Some ''222''] \<rparr>] \<rparr>]]
   = Inr ([\<lparr> lead_id = Some ''L1'', name = None, email = Some [], phone = Some ''111'',
             created_time = None \<rparr>],
          [\<lparr> lead_id = Some ''L1'', name = None, email = Some [], phone = Some ''111'',
             created_time = None \<rparr>])"
  by (simp add: eval_defs)

text \<open>
  C1, amended. A lookup with the empty string as email never matches a row on the email
  column unless the row stores the empty string itself: over a table none of whose rows
  has the empty string as email, \<open>is_seen\<close> with the email \<open>""\<close> is decided by the id
  and the phone alone; a row whose email is absent (NULL) never matches. The same holds
  for the phone column. So two leads that both lack an email altogether (or both lack a
  phone altogether), with distinct non-empty ids and distinct values in the other
  column, both new to the table, are both ingested.
\<close>

theorem absent_value_never_matches:
  "((\<forall>r \<in> set db. email r \<noteq> Some []) \<longrightarrow>
      (is_seen db lid [] ph \<longleftrightarrow>
         (\<exists>r \<in> set db. (lid \<noteq> None \<and> lead_id r = lid) \<or> phone r = Some ph))) \<and>
   ((\<forall>r \<in> set db. phone r \<noteq> Some []) \<longrightarrow>
      (is_seen db lid em [] \<longleftrightarrow>
         (\<exists>r \<in> set db. (lid \<noteq> None \<and> lead_id r = lid) \<or> email r = Some em))) \<and>
   (normalize_lead rawA = Some a \<and> normalize_lead rawB = Some b \<and>
    truthy (lead_id a) \<and> truthy (lead_id b) \<and> lead_id a \<noteq> lead_id b \<and>
    ((email a = None \<and> email b = None \<and> phone a \<noteq> phone b) \<or>
     (phone a = None \<and> phone b = None \<and> email a \<noteq> email b)) \<and>
    since_skips lib since_param offline_mode a = Inr False \<and>
    since_skips lib since_param offline_mode b = Inr False \<and>
    \<not> is_seen db (lead_id a) (or_empty (email a)) (or_empty (phone a)) \<and>
    \<not> is_seen db (lead_id b) (or_empty (email b)) (or_empty (phone b)) \<longrightarrow>
      run_pipeline lib since_param offline_mode db [[rawA, rawB]] = Inr (db @ [a, b], [a, b]))"
proof -
  have col_email: "(\<forall>r \<in> set db. email r \<noteq> Some []) \<longrightarrow>
      (is_seen db lid [] ph \<longleftrightarrow>
         (\<exists>r \<in> set db. (lid \<noteq> None \<and> lead_id r = lid) \<or> phone r = Some ph))"
    by (auto simp: is_seen_def)
  have col_phone: "(\<forall>r \<in> set db. phone r \<noteq> Some []) \<longrightarrow>
      (is_seen db lid em [] \<longleftrightarrow>
         (\<exists>r \<in> set db. (lid \<noteq> None \<and> lead_id r = lid) \<or> email r = Some em))"
    by (auto simp: is_seen_def)
  have pair: "run_pipeline lib since_param offline_mode db [[rawA, rawB]] = Inr (db @ [a, b], [a, b])"
    if na: "normalize_lead rawA = Some a" and nb: "normalize_lead rawB = Some b"
      and ida: "truthy (lead_id a)" and idb: "truthy (lead_id b)" and ids: "lead_id a \<noteq> lead_id b"
      and lack: "(email a = None \<and> email b = None \<and> phone a \<noteq> phone b) \<or>
                 (phone a = None \<and> phone b = None \<and> email a \<noteq> email b)"
      and fa: "since_skips lib since_param offline_mode a = Inr False"
      and fb: "since_skips lib since_param offline_mode b = Inr False"
      and ua: "\<not> is_seen db (lead_id a) (or_empty (email a)) (or_empty (phone a))"
      and ub: "\<not> is_seen db (lead_id b) (or_empty (email b)) (or_empty (phone b))"
  proof -
    have stepA: "main_body lib since_param offline_mode (db, []) rawA = Inr (db @ [a], [a])"
      using na ida fa ua by (simp add: main_body_new)
    from normalize_lead_contact [OF na] normalize_lead_contact [OF nb] lack
    have "email a \<noteq> Some (or_empty (email b)) \<and> phone a \<noteq> Some (or_empty (phone b))"
      by (cases "email a"; cases "email b"; cases "phone a"; cases "phone b")
         (auto simp: or_empty_def)
    with ub ids have "\<not> is_seen (db @ [a]) (lead_id b) (or_empty (email b)) (or_empty (phone b))"
      by (auto simp: is_seen_def)
    with nb idb fb
    have stepB: "main_body lib since_param offline_mode (db @ [a], [a]) rawB = Inr ((db @ [a]) @ [b], [a] @ [b])"
      by (simp add: main_body_new)
    show ?thesis
      using stepA stepB by (simp add: run_pipeline_def)
  qed
  from col_email col_phone pair show ?thesis by blast
qed

theorem absent_value_never_matches_witness:
  "\<not> is_seen [\<lparr> lead_id = Some ''L1'', name = None, email = None, phone = Some ''111'',
                created_time = None \<rparr>] (Some ''L2'') [] ''222'' \<and>
   run_pipeline no_lib None False []
     [[\<lparr> raw_id = Some ''L1'', raw_created_time = None,
         field_data = [\<lparr> item_name = Some ''phone'', item_values = Some [Some ''111''] \<rparr>] \<rparr>,
       \<lparr> raw_id = Some ''L2'', raw_created_time = None,
         field_data = [\<lparr> item_name = Some ''phone'', item_values = Some [Some ''222''] \<rparr>] \<rparr>]]
   = Inr ([\<lparr> lead_id = Some ''L1'', name = None, email = None, phone = Some ''111'', created_time = None \<rparr>,
           \<lparr> lead_id = Some ''L2'', name = None, email = None, phone = Some ''222'', created_time = None \<rparr>],
          [\<lparr> lead_id = Some ''L1'', name = None, email = None, phone = Some ''111'', created_time = None \<rparr>,
           \<lparr> lead_id = Some ''L2'', name = None, email = None, phone = Some ''222'', created_time = None \<rparr>])"
  using absent_value_never_matches [of
     "[\<lparr> lead_id = Some ''L1'', name = None, email = None, phone = Some ''111'', created_time = None \<rparr>]"
     "Some ''L2''" "''222''" "''x''"
     "\<lparr> raw_id = Some ''L1'', raw_created_time = None,
         field_data = [\<lparr> item_name = Some ''phone'', item_values = Some [Some ''111''] \<rparr>] \<rparr>"
     "\<lparr> lead_id = Some ''L1'', name = None, email = None, phone = Some ''111'', created_time = None \<rparr>"
     "\<lparr> raw_id = Some ''L2'', raw_created_time = None,
         field_data = [\<lparr> item_name = Some ''phone'', item_values = Some [Some ''222''] \<rparr>] \<rparr>"
     "\<lparr> lead_id = Some ''L2'', name = None, email = None, phone = Some ''222'', created_time = None \<rparr>"
     no_lib None False]
    absent_value_never_matches [of "[]"
     "Some ''L2''" "''222''" "''x''"
     "\<lparr> raw_id = Some ''L1'', raw_created_time = None,
         field_data = [\<lparr> item_name = Some ''phone'', item_values = Some [Some ''111''] \<rparr>] \<rparr>"
     "\<lparr> lead_id = Some ''L1'', name = None, email = None, phone = Some ''111'', created_time = None \<rparr>"
     "\<lparr> raw_id = Some ''L2'', raw_created_time = None,
         field_data = [\<lparr> item_name = Some ''phone'', item_values = Some [Some ''222''] \<rparr>] \<rparr>"
     "\<lparr> lead_id = Some ''L2'', name = None, email = None, phone = Some ''222'', created_time = None \<rparr>"
     no_lib None False]
  by (simp add: since_skips_def normalize_lead_def derive_name_def
  derive_phone_def dict_get_def first_value_def or_empty_def py_or_def strip_def is_space_def is_seen_def)

section \<open>Properties of the fetch loop\<close>

text \<open>One pass through the loop body: a failure that is retried, the last failure, a success.\<close>

lemma step_retry:
  assumes "failing lib a (srv (sent st) url ps)" and "int a < max_retries"
  shows "attempt_step srv lib max_retries url ps a st =
     Continue (a + 1) (st\<lparr>sent := Suc (sent st),
                          slept := slept st @ [backoff lib a (srv (sent st) url ps)]\<rparr>)"
  using assms
  by (auto simp: attempt_step_def failing_def backoff_def except_handler_def Let_def
      split: response.splits)

lemma step_last:
  assumes "failing lib a (srv (sent st) url ps)" and "max_retries \<le> int a"
  shows "\<exists>st'. attempt_step srv lib max_retries url ps a st =
     Return (Inl (raised_for (srv (sent st) url ps))) st' \<and> sent st' = Suc (sent st)"
  using assms
  by (auto simp: attempt_step_def failing_def raised_for_def except_handler_def Let_def
      split: response.splits)

lemma step_ok:
  assumes "srv (sent st) url ps = Response s ra data" and "s < 400"
  shows "attempt_step srv lib max_retries url ps a st = Return (Inr data) (st\<lparr>sent := Suc (sent st)\<rparr>)"
  using assms by (simp add: attempt_step_def Let_def)

text \<open>
  \<open>j\<close> failures in a row, all within the budget, move the loop from \<open>attempt = a\<close>
  to \<open>attempt = a + j\<close>.
\<close>

lemma fetch_page_failures:
  "\<forall>k<j. failing lib (a + k) (srv (sent st + k) url ps) \<Longrightarrow> int (a + j) \<le> max_retries \<Longrightarrow>
   fetch_page srv lib max_retries url ps a st =
   fetch_page srv lib max_retries url ps (a + j)
     (st\<lparr>sent := sent st + j,
         slept := slept st @ map (\<lambda>k. backoff lib (a + k) (srv (sent st + k) url ps)) [0..<j]\<rparr>)"
proof (induction j arbitrary: a st)
  case 0
  then show ?case by simp
next
  case (Suc j)
  let ?st1 = "st\<lparr>sent := Suc (sent st), slept := slept st @ [backoff lib a (srv (sent st) url ps)]\<rparr>"
  from Suc.prems(1) have f0: "failing lib a (srv (sent st) url ps)"
    by (metis add.right_neutral zero_less_Suc)
  from Suc.prems(2) have lt: "int a < max_retries" by simp
  have first: "fetch_page srv lib max_retries url ps a st =
      fetch_page srv lib max_retries url ps (a + 1) ?st1"
    using f0 lt by (subst fetch_page.simps) (simp add: step_retry)
  have rest: "\<forall>k<j. failing lib ((a + 1) + k) (srv (sent ?st1 + k) url ps)"
  proof (intro allI impI)
    fix k assume "k < j"
    then have "Suc k < Suc j" by simp
    with Suc.prems(1) have "failing lib (a + Suc k) (srv (sent st + Suc k) url ps)" by blast
    then show "failing lib ((a + 1) + k) (srv (sent ?st1 + k) url ps)" by simp
  qed
  from Suc.prems(2) have bound: "int ((a + 1) + j) \<le> max_retries" by simp
  from Suc.IH [OF rest bound] first show ?case
    by (simp add: map_upt_Suc del: upt_Suc)
qed

lemma fetch_page_last:
  assumes "failing lib a (srv (sent st) url ps)" and "max_retries \<le> int a"
  shows "\<exists>st'. fetch_page srv lib max_retries url ps a st =
     (Inl (raised_for (srv (sent st) url ps)), st') \<and> sent st' = Suc (sent st)"
proof -
  from assms step_last [of lib a srv st url ps max_retries] obtain st' where
    "attempt_step srv lib max_retries url ps a st = Return (Inl (raised_for (srv (sent st) url ps))) st'"
    and "sent st' = Suc (sent st)" by blast
  then show ?thesis
    by (subst fetch_page.simps) simp
qed

lemma fetch_page_ok:
  assumes "srv (sent st) url ps = Response s ra data" and "s < 400"
  shows "fetch_page srv lib max_retries url ps a st = (Inr data, st\<lparr>sent := Suc (sent st)\<rparr>)"
  using assms by (subst fetch_page.simps) (simp add: step_ok)

lemma fetch_page_exhausted:
  assumes "0 \<le> max_retries"
    and "\<forall>k \<le> nat max_retries. failing lib k (srv (sent st + k) url ps)"
  shows "\<exists>st'. fetch_page srv lib max_retries url ps 0 st =
     (Inl (raised_for (srv (sent st + nat max_retries) url ps)), st') \<and>
     sent st' = sent st + nat max_retries + 1"
proof -
  let ?m = "nat max_retries"
  let ?st = "st\<lparr>sent := sent st + ?m,
      slept := slept st @ map (\<lambda>k. backoff lib (0 + k) (srv (sent st + k) url ps)) [0..<?m]\<rparr>"
  from assms have "fetch_page srv lib max_retries url ps 0 st =
      fetch_page srv lib max_retries url ps (0 + ?m) ?st"
    by (intro fetch_page_failures) auto
  moreover from assms have "failing lib ?m (srv (sent ?st) url ps)" by simp
  with assms(1) have "\<exists>st'. fetch_page srv lib max_retries url ps ?m ?st =
      (Inl (raised_for (srv (sent ?st) url ps)), st') \<and> sent st' = Suc (sent ?st)"
    by (intro fetch_page_last) auto
  ultimately show ?thesis by auto
qed

lemma fetch_page_recovers:
  assumes "int j \<le> max_retries"
    and "\<forall>k<j. failing lib k (srv (sent st + k) url ps)"
    and "srv (sent st + j) url ps = Response s ra data" and "s < 400"
  shows "fetch_page srv lib max_retries url ps 0 st =
     (Inr data, st\<lparr>sent := sent st + j + 1,
                   slept := slept st @ map (\<lambda>k. backoff lib k (srv (sent st + k) url ps)) [0..<j]\<rparr>)"
proof -
  let ?st = "st\<lparr>sent := sent st + j,
      slept := slept st @ map (\<lambda>k. backoff lib (0 + k) (srv (sent st + k) url ps)) [0..<j]\<rparr>"
  from assms(1,2) have "fetch_page srv lib max_retries url ps 0 st =
      fetch_page srv lib max_retries url ps (0 + j) ?st"
    by (intro fetch_page_failures) auto
  moreover from assms(3) have "srv (sent ?st) url ps = Response s ra data" by simp
  from this assms(4)
  have "fetch_page srv lib max_retries url ps (0 + j) ?st = (Inr data, ?st\<lparr>sent := Suc (sent ?st)\<rparr>)"
    by (rule fetch_page_ok [of srv ?st url ps s ra data])
  ultimately show ?thesis by simp
qed

lemma fetch_next_raise:
  assumes "gen_url g = Some url" and "url \<noteq> []"
    and "fetch_page srv lib max_retries url (if url = base_url then gen_params g else None) 0 (gen_net g)
         = (Inl e, st')"
  shows "fetch_next srv lib max_retries base_url g = Raise e st' \<and>
         fetch_all_pages srv lib max_retries base_url g = Some ([], Some e, st')"
proof -
  from assms have "fetch_next srv lib max_retries base_url g = Raise e st'"
    by (simp add: fetch_next_def or_empty_def)
  then show ?thesis
    by (subst fetch_all_pages.simps) simp
qed

lemma fetch_next_yield:
  assumes "gen_url g = Some url" and "url \<noteq> []"
    and "fetch_page srv lib max_retries url (if url = base_url then gen_params g else None) 0 (gen_net g)
         = (Inr data, st')"
  shows "fetch_next srv lib max_retries base_url g =
         Yield (leads_of data) \<lparr> gen_url = paging_next data, gen_params = None, gen_net = st' \<rparr>"
  using assms by (simp add: fetch_next_def or_empty_def)

lemma fetch_all_pages_serves:
  "serves srv (sent (gen_net g)) url (if url = base_url then gen_params g else None) pages \<Longrightarrow>
   gen_url g = Some url \<Longrightarrow> url \<noteq> [] \<Longrightarrow>
   fetch_all_pages srv lib max_retries base_url g =
     Some (map leads_of pages, None, (gen_net g)\<lparr>sent := sent (gen_net g) + length pages\<rparr>)"
proof (induction pages arbitrary: g url)
  case Nil
  then show ?case by simp
next
  case (Cons p rest)
  let ?ps = "if url = base_url then gen_params g else None"
  from Cons.prems(1) obtain s ra where
    resp: "srv (sent (gen_net g)) url ?ps = Response s ra p" and ok: "s < 400"
    by (auto split: response.splits)
  have page: "fetch_page srv lib max_retries url ?ps 0 (gen_net g) =
      (Inr p, (gen_net g)\<lparr>sent := Suc (sent (gen_net g))\<rparr>)"
    using resp ok by (rule fetch_page_ok [of srv "gen_net g" url ?ps s ra p])
  let ?g' = "\<lparr> gen_url = paging_next p, gen_params = None,
               gen_net = (gen_net g)\<lparr>sent := Suc (sent (gen_net g))\<rparr> \<rparr>"
  from Cons.prems(2,3) page have nxt: "fetch_next srv lib max_retries base_url g = Yield (leads_of p) ?g'"
    by (simp add: fetch_next_def or_empty_def)
  show ?case
  proof (cases "rest = []")
    case True
    with Cons.prems(1) have "\<not> truthy (gen_url ?g')" by simp
    then have "fetch_next srv lib max_retries base_url ?g' = StopIteration (gen_net ?g')"
      by (simp add: fetch_next_def)
    then have "fetch_all_pages srv lib max_retries base_url ?g' = Some ([], None, gen_net ?g')"
      by (subst fetch_all_pages.simps) simp
    with nxt True show ?thesis
      by (subst fetch_all_pages.simps) simp
  next
    case False
    with Cons.prems(1) obtain u where u: "paging_next p = Some u" "u \<noteq> []"
      and srv': "serves srv (Suc (sent (gen_net g))) u None rest"
      by (cases "paging_next p") (auto simp: or_empty_def)
    have "fetch_all_pages srv lib max_retries base_url ?g' =
        Some (map leads_of rest, None, (gen_net ?g')\<lparr>sent := sent (gen_net ?g') + length rest\<rparr>)"
      using srv' u by (intro Cons.IH [where url = u]) auto
    with nxt show ?thesis
      by (subst fetch_all_pages.simps) simp
  qed
qed

text \<open>
  C5. With \<open>max_retries \<ge> 0\<close>, at the start of a page: when the next
  \<open>max_retries + 1\<close> requests for the page are all answered with status 500, the
  generator raises \<open>HTTPError\<close> for status 500 after exactly that many requests and
  yields nothing, for this page or after it. When only \<open>j \<le> max_retries\<close> requests
  are answered with 500 and the next one succeeds, the generator yields the leads of that
  page, having slept 1, 2, 4, ... seconds between the \<open>j + 1\<close> requests.
\<close>

theorem server_errors_exhaust_retries:
  assumes "0 \<le> max_retries" and "gen_url g = Some url" and "url \<noteq> []"
    and "ps = (if url = base_url then gen_params g else None)"
  shows
  "((\<forall>k \<le> nat max_retries. srv (sent (gen_net g) + k) url ps = Response 500 (ra k) (body k)) \<longrightarrow>
      (\<exists>st'. fetch_next srv lib max_retries base_url g = Raise (HTTPError 500) st' \<and>
             fetch_all_pages srv lib max_retries base_url g = Some ([], Some (HTTPError 500), st') \<and>
             sent st' = sent (gen_net g) + nat max_retries + 1)) \<and>
   (int j \<le> max_retries \<and>
    (\<forall>k<j. srv (sent (gen_net g) + k) url ps = Response 500 (ra k) (body k)) \<and>
    srv (sent (gen_net g) + j) url ps = Response s hdr data \<and> s < 400 \<longrightarrow>
      fetch_next srv lib max_retries base_url g =
        Yield (leads_of data)
          \<lparr> gen_url = paging_next data, gen_params = None,
            gen_net = (gen_net g)\<lparr>sent := sent (gen_net g) + j + 1,
                                  slept := slept (gen_net g) @ map (\<lambda>k. 2 ^ k) [0..<j]\<rparr> \<rparr>)"
proof -
  have f500: "failing lib k (Response 500 h b)" for k h b
    by (simp add: failing_def)
  have b500: "backoff lib k (Response 500 h b) = 2 ^ k" for k h b
    by (simp add: backoff_def)
  have exhaust: "\<exists>st'. fetch_next srv lib max_retries base_url g = Raise (HTTPError 500) st' \<and>
             fetch_all_pages srv lib max_retries base_url g = Some ([], Some (HTTPError 500), st') \<and>
             sent st' = sent (gen_net g) + nat max_retries + 1"
    if all: "\<forall>k \<le> nat max_retries. srv (sent (gen_net g) + k) url ps = Response 500 (ra k) (body k)"
  proof -
    from all have "\<forall>k \<le> nat max_retries. failing lib k (srv (sent (gen_net g) + k) url ps)"
      by (simp add: f500)
    with assms(1) fetch_page_exhausted [of max_retries lib srv "gen_net g" url ps]
    obtain st' where
      "fetch_page srv lib max_retries url ps 0 (gen_net g) =
         (Inl (raised_for (srv (sent (gen_net g) + nat max_retries) url ps)), st')"
      and cnt: "sent st' = sent (gen_net g) + nat max_retries + 1"
      by blast
    moreover from all have "srv (sent (gen_net g) + nat max_retries) url ps =
        Response 500 (ra (nat max_retries)) (body (nat max_retries))" by simp
    ultimately have "fetch_page srv lib max_retries url ps 0 (gen_net g) = (Inl (HTTPError 500), st')"
      by (simp add: raised_for_def)
    with assms(2,3,4) fetch_next_raise [of g url srv lib max_retries base_url "HTTPError 500" st'] cnt
    show ?thesis by auto
  qed
  have recover: "fetch_next srv lib max_retries base_url g =
        Yield (leads_of data)
          \<lparr> gen_url = paging_next data, gen_params = None,
            gen_net = (gen_net g)\<lparr>sent := sent (gen_net g) + j + 1,
                                  slept := slept (gen_net g) @ map (\<lambda>k. 2 ^ k) [0..<j]\<rparr> \<rparr>"
    if le: "int j \<le> max_retries"
      and all: "\<forall>k<j. srv (sent (gen_net g) + k) url ps = Response 500 (ra k) (body k)"
      and ok: "srv (sent (gen_net g) + j) url ps = Response s hdr data" and s: "s < 400"
  proof -
    from all have fl: "\<forall>k<j. failing lib k (srv (sent (gen_net g) + k) url ps)"
      by (simp add: f500)
    from all have "map (\<lambda>k. backoff lib k (srv (sent (gen_net g) + k) url ps)) [0..<j] =
        map (\<lambda>k. 2 ^ k) [0..<j]"
      by (simp add: b500)
    with fetch_page_recovers [of j max_retries lib srv "gen_net g" url ps s hdr data] le fl ok s
    have "fetch_page srv lib max_retries url ps 0 (gen_net g) =
      (Inr data, (gen_net g)\<lparr>sent := sent (gen_net g) + j + 1,
                               slept := slept (gen_net g) @ map (\<lambda>k. 2 ^ k) [0..<j]\<rparr>)"
      by simp
    with assms(2,3,4) show ?thesis
      by (intro fetch_next_yield [where url = url]) auto
  qed
  from exhaust recover show ?thesis by blast
qed

theorem server_errors_exhaust_retries_witness:
  "(\<exists>st'. fetch_next (\<lambda>n url ps. Response 500 None \<lparr> page_data = None, paging_next = None \<rparr>)
            no_lib 1 ''https://graph.facebook.com/v16.0/F1/leads''
            \<lparr> gen_url = Some ''https://graph.facebook.com/v16.0/F1/leads'', gen_params = None,
              gen_net = \<lparr> sent = 0, slept = [] \<rparr> \<rparr> = Raise (HTTPError 500) st' \<and>
          fetch_all_pages (\<lambda>n url ps. Response 500 None \<lparr> page_data = None, paging_next = None \<rparr>)
            no_lib 1 ''https://graph.facebook.com/v16.0/F1/leads''
            \<lparr> gen_url = Some ''https://graph.facebook.com/v16.0/F1/leads'', gen_params = None,
              gen_net = \<lparr> sent = 0, slept = [] \<rparr> \<rparr> = Some ([], Some (HTTPError 500), st') \<and>
          sent st' = 2) \<and>
   fetch_next (\<lambda>n url ps. if n < 1 then Response 500 None \<lparr> page_data = None, paging_next = None \<rparr>
                           else Response 200 None \<lparr> page_data = Some [], paging_next = None \<rparr>)
     no_lib 1 ''https://graph.facebook.com/v16.0/F1/leads''
     \<lparr> gen_url = Some ''https://graph.facebook.com/v16.0/F1/leads'', gen_params = None,
       gen_net = \<lparr> sent = 0, slept = [] \<rparr> \<rparr>
   = Yield [] \<lparr> gen_url = None, gen_params = None, gen_net = \<lparr> sent = 2, slept = [1] \<rparr> \<rparr>"
  using server_errors_exhaust_retries [of 1
      "\<lparr> gen_url = Some ''https://graph.facebook.com/v16.0/F1/leads'', gen_params = None,
         gen_net = \<lparr> sent = 0, slept = [] \<rparr> \<rparr>"
      "''https://graph.facebook.com/v16.0/F1/leads''" None "''https://graph.facebook.com/v16.0/F1/leads''"
      "\<lambda>n url ps. Response 500 None \<lparr> page_data = None, paging_next = None \<rparr>"
      "\<lambda>k. None" "\<lambda>k. \<lparr> page_data = None, paging_next = None \<rparr>" no_lib
      0 200 None "\<lparr> page_data = None, paging_next = None \<rparr>"]
    server_errors_exhaust_retries [of 1
      "\<lparr> gen_url = Some ''https://graph.facebook.com/v16.0/F1/leads'', gen_params = None,
         gen_net = \<lparr> sent = 0, slept = [] \<rparr> \<rparr>"
      "''https://graph.facebook.com/v16.0/F1/leads''" None "''https://graph.facebook.com/v16.0/F1/leads''"
      "\<lambda>n url ps. if n < 1 then Response 500 None \<lparr> page_data = None, paging_next = None \<rparr>
                           else Response 200 None \<lparr> page_data = Some [], paging_next = None \<rparr>"
      "\<lambda>k. None" "\<lambda>k. \<lparr> page_data = None, paging_next = None \<rparr>" no_lib
      1 200 None "\<lparr> page_data = Some [], paging_next = None \<rparr>"]
  by (simp add: leads_of_def numeral_2_eq_2)

text \<open>
  C4, as the claim states it, fails: the loop has one variable \<open>attempt\<close>, incremented
  by a 429 response and by every other failure alike. With \<open>max_retries = 1\<close>, one 429
  response followed by a success yields the page; the same 429 response coming after one
  500 response is fatal (\<open>HTTPError\<close> for status 429, the third request is never sent),
  although there has been only one 429 response and only one other failure. The delay
  slept for that 429 response is \<open>2 ** 1\<close>, the shared counter again.
\<close>

theorem rate_limit_shares_attempt_counter:
  "fetch_page
     (\<lambda>n url ps. if n = 0 then Response 429 None \<lparr> page_data = None, paging_next = None \<rparr>
                  else Response 200 None \<lparr> page_data = Some [], paging_next = None \<rparr>)
     no_lib 1 ''https://graph.facebook.com/v16.0/F1/leads'' None 0 \<lparr> sent = 0, slept = [] \<rparr>
   = (Inr \<lparr> page_data = Some [], paging_next = None \<rparr>, \<lparr> sent = 2, slept = [1] \<rparr>) \<and>
   fetch_page
     (\<lambda>n url ps. if n = 0 then Response 500 None \<lparr> page_data = None, paging_next = None \<rparr>
                  else if n = 1 then Response 429 None \<lparr> page_data = None, paging_next = None \<rparr>
                  else Response 200 None \<lparr> page_data = Some [], paging_next = None \<rparr>)
     no_lib 1 ''https://graph.facebook.com/v16.0/F1/leads'' None 0 \<lparr> sent = 0, slept = [] \<rparr>
   = (Inl (HTTPError 429), \<lparr> sent = 2, slept = [1, 2] \<rparr>)"
  by (simp add: attempt_step_def except_handler_def rate_limit_delay_def Let_def)

text \<open>
  C4, amended. 429 responses and all other failures (status 400 or more, connection
  failures) are counted by one attempt counter per page, against the one bound
  \<open>max_retries\<close> (taken \<open>\<ge> 0\<close>): when the first \<open>max_retries + 1\<close> responses for a page
  fail, whatever their kinds, the exception of the last one is raised; when at most
  \<open>max_retries\<close> responses fail, whatever their kinds, and the next one succeeds, the
  page is returned; in particular \<open>max_retries + 1\<close> responses 429 in a row raise
  \<open>HTTPError\<close> for status 429, which ends the fetch.
\<close>

theorem one_attempt_counter_for_all_failures:
  assumes "0 \<le> max_retries"
  shows
  "((\<forall>k \<le> nat max_retries. failing lib k (srv (sent st + k) url ps)) \<longrightarrow>
      fst (fetch_page srv lib max_retries url ps 0 st) =
        Inl (raised_for (srv (sent st + nat max_retries) url ps))) \<and>
   (int j \<le> max_retries \<and> (\<forall>k<j. failing lib k (srv (sent st + k) url ps)) \<and>
    srv (sent st + j) url ps = Response s hdr data \<and> s < 400 \<longrightarrow>
      fetch_page srv lib max_retries url ps 0 st =
        (Inr data, st\<lparr>sent := sent st + j + 1,
                      slept := slept st @ map (\<lambda>k. backoff lib k (srv (sent st + k) url ps)) [0..<j]\<rparr>)) \<and>
   (gen_url g = Some url \<and> url \<noteq> [] \<and> ps = (if url = base_url then gen_params g else None) \<and>
    (\<forall>k \<le> nat max_retries. srv (sent (gen_net g) + k) url ps = Response 429 (ra k) (body k) \<and>
                            0 \<le> rate_limit_delay lib k (ra k)) \<longrightarrow>
      (\<exists>st'. fetch_next srv lib max_retries base_url g = Raise (HTTPError 429) st' \<and>
             fetch_all_pages srv lib max_retries base_url g = Some ([], Some (HTTPError 429), st')))"
proof -
  have exhaust: "\<exists>st'. fetch_page srv lib max_retries url ps 0 n =
        (Inl (raised_for (srv (sent n + nat max_retries) url ps)), st')"
    if "\<forall>k \<le> nat max_retries. failing lib k (srv (sent n + k) url ps)" for n
    using fetch_page_exhausted [of max_retries lib srv n url ps] assms that by auto
  have recover: "fetch_page srv lib max_retries url ps 0 st =
        (Inr data, st\<lparr>sent := sent st + j + 1,
                      slept := slept st @ map (\<lambda>k. backoff lib k (srv (sent st + k) url ps)) [0..<j]\<rparr>)"
    if "int j \<le> max_retries" and "\<forall>k<j. failing lib k (srv (sent st + k) url ps)"
      and "srv (sent st + j) url ps = Response s hdr data" and "s < 400"
    using fetch_page_recovers [of j max_retries lib srv st url ps s hdr data] that by simp
  have limited: "\<exists>st'. fetch_next srv lib max_retries base_url g = Raise (HTTPError 429) st' \<and>
             fetch_all_pages srv lib max_retries base_url g = Some ([], Some (HTTPError 429), st')"
    if url: "gen_url g = Some url" "url \<noteq> []"
      and ps: "ps = (if url = base_url then gen_params g else None)"
      and all: "\<forall>k \<le> nat max_retries. srv (sent (gen_net g) + k) url ps = Response 429 (ra k) (body k) \<and>
                            0 \<le> rate_limit_delay lib k (ra k)"
  proof -
    from all have "\<forall>k \<le> nat max_retries. failing lib k (srv (sent (gen_net g) + k) url ps)"
      by (simp add: failing_def)
    from exhaust [OF this] obtain st' where
      "fetch_page srv lib max_retries url ps 0 (gen_net g) =
        (Inl (raised_for (srv (sent (gen_net g) + nat max_retries) url ps)), st')" ..
    moreover from all have "srv (sent (gen_net g) + nat max_retries) url ps =
        Response 429 (ra (nat max_retries)) (body (nat max_retries))" by simp
    ultimately have "fetch_page srv lib max_retries url ps 0 (gen_net g) = (Inl (HTTPError 429), st')"
      by (simp add: raised_for_def)
    with url ps fetch_next_raise [of g url srv lib max_retries base_url "HTTPError 429" st']
    show ?thesis by auto
  qed
  from exhaust [of st] have "(\<forall>k \<le> nat max_retries. failing lib k (srv (sent st + k) url ps)) \<longrightarrow>
      fst (fetch_page srv lib max_retries url ps 0 st) =
        Inl (raised_for (srv (sent st + nat max_retries) url ps))"
    by auto
  with recover limited show ?thesis by blast
qed

theorem one_attempt_counter_for_all_failures_witness:
  "fst (fetch_page
     (\<lambda>n url ps. if n = 0 then ConnectionFailed
                  else Response 429 None \<lparr> page_data = None, paging_next = None \<rparr>)
     no_lib 1 ''https://graph.facebook.com/v16.0/F1/leads'' None 0 \<lparr> sent = 0, slept = [] \<rparr>)
   = Inl (HTTPError 429) \<and>
   fetch_page
     (\<lambda>n url ps. if n = 0 then Response 429 (Some ''7'') \<lparr> page_data = None, paging_next = None \<rparr>
                  else if n = 1 then Response 503 None \<lparr> page_data = None, paging_next = None \<rparr>
                  else Response 200 None \<lparr> page_data = Some [], paging_next = None \<rparr>)
     (no_lib\<lparr>int_of_str := (\<lambda>s. if s = ''7'' then Some 7 else None)\<rparr>)
     2 ''https://graph.facebook.com/v16.0/F1/leads'' None 0 \<lparr> sent = 0, slept = [] \<rparr>
   = (Inr \<lparr> page_data = Some [], paging_next = None \<rparr>, \<lparr> sent = 3, slept = [7, 2] \<rparr>) \<and>
   (\<exists>st'. fetch_next
       (\<lambda>n url ps. Response 429 None \<lparr> page_data = None, paging_next = None \<rparr>)
       no_lib 1 ''https://graph.facebook.com/v16.0/F1/leads''
       \<lparr> gen_url = Some ''https://graph.facebook.com/v16.0/F1/leads'', gen_params = None,
         gen_net = \<lparr> sent = 0, slept = [] \<rparr> \<rparr> = Raise (HTTPError 429) st' \<and>
     fetch_all_pages
       (\<lambda>n url ps. Response 429 None \<lparr> page_data = None, paging_next = None \<rparr>)
       no_lib 1 ''https://graph.facebook.com/v16.0/F1/leads''
       \<lparr> gen_url = Some ''https://graph.facebook.com/v16.0/F1/leads'', gen_params = None,
         gen_net = \<lparr> sent = 0, slept = [] \<rparr> \<rparr> = Some ([], Some (HTTPError 429), st'))"
  using one_attempt_counter_for_all_failures [of 1 no_lib
      "\<lambda>n url ps. if n = 0 then ConnectionFailed
                  else Response 429 None \<lparr> page_data = None, paging_next = None \<rparr>"
      "\<lparr> sent = 0, slept = [] \<rparr>" "''https://graph.facebook.com/v16.0/F1/leads''" None
      0 200 None "\<lparr> page_data = None, paging_next = None \<rparr>"
      "\<lparr> gen_url = Some ''https://graph.facebook.com/v16.0/F1/leads'', gen_params = None,
         gen_net = \<lparr> sent = 0, slept = [] \<rparr> \<rparr>"
      "''https://graph.facebook.com/v16.0/F1/leads''"
      "\<lambda>k. None" "\<lambda>k. \<lparr> page_data = None, paging_next = None \<rparr>"]
    one_attempt_counter_for_all_failures [of 2
      "no_lib\<lparr>int_of_str := (\<lambda>s. if s = ''7'' then Some 7 else None)\<rparr>"
      "\<lambda>n url ps. if n = 0 then Response 429 (Some ''7'') \<lparr> page_data = None, paging_next = None \<rparr>
                  else if n = 1 then Response 503 None \<lparr> page_data = None, paging_next = None \<rparr>
                  else Response 200 None \<lparr> page_data = Some [], paging_next = None \<rparr>"
      "\<lparr> sent = 0, slept = [] \<rparr>" "''https://graph.facebook.com/v16.0/F1/leads''" None
      2 200 None "\<lparr> page_data = Some [], paging_next = None \<rparr>"
      "\<lparr> gen_url = Some ''https://graph.facebook.com/v16.0/F1/leads'', gen_params = None,
         gen_net = \<lparr> sent = 0, slept = [] \<rparr> \<rparr>"
      "''https://graph.facebook.com/v16.0/F1/leads''"
      "\<lambda>k. None" "\<lambda>k. \<lparr> page_data = None, paging_next = None \<rparr>"]
    one_attempt_counter_for_all_failures [of 1 no_lib
      "\<lambda>n url ps. Response 429 None \<lparr> page_data = None, paging_next = None \<rparr>"
      "\<lparr> sent = 0, slept = [] \<rparr>" "''https://graph.facebook.com/v16.0/F1/leads''" None
      0 200 None "\<lparr> page_data = None, paging_next = None \<rparr>"
      "\<lparr> gen_url = Some ''https://graph.facebook.com/v16.0/F1/leads'', gen_params = None,
         gen_net = \<lparr> sent = 0, slept = [] \<rparr> \<rparr>"
      "''https://graph.facebook.com/v16.0/F1/leads''"
      "\<lambda>k. None" "\<lambda>k. \<lparr> page_data = None, paging_next = None \<rparr>"]
  by (simp add: failing_def raised_for_def backoff_def rate_limit_delay_def no_lib_def or_empty_def
      numeral_2_eq_2 numeral_3_eq_3 less_Suc_eq le_Suc_eq all_conj_distrib)

text \<open>
  C8. For a source of \<open>N \<ge> 1\<close> pages, each served at the first request and chained by
  \<open>paging.next\<close>, whose last page has no \<open>paging.next\<close>, the generator started by
  \<open>fetch_leads\<close> stops after yielding exactly \<open>N\<close> batches, the leads of each page
  in order, with \<open>N\<close> requests sent, no delay and no exception.
\<close>

theorem pagination_yields_each_page:
  assumes "serves srv 0 (base_url_of api_version form_id)
             (gen_params (fetch_leads access_token form_id api_version lim since)) pages"
  shows "fetch_all_pages srv lib max_retries (base_url_of api_version form_id)
           (fetch_leads access_token form_id api_version lim since)
         = Some (map leads_of pages, None, \<lparr> sent = length pages, slept = [] \<rparr>) \<and>
         length (map leads_of pages) = length pages"
proof -
  let ?g = "fetch_leads access_token form_id api_version lim since"
  let ?base = "base_url_of api_version form_id"
  have url: "gen_url ?g = Some ?base" and net: "gen_net ?g = \<lparr> sent = 0, slept = [] \<rparr>"
    by (simp_all add: fetch_leads_def)
  have ne: "?base \<noteq> []"
    by (simp add: base_url_of_def)
  from assms net have "serves srv (sent (gen_net ?g)) ?base
      (if ?base = ?base then gen_params ?g else None) pages"
    by simp
  from fetch_all_pages_serves [OF this url ne, of lib max_retries] net show ?thesis
    by simp
qed

theorem pagination_yields_each_page_witness:
  "fetch_all_pages
     (\<lambda>n url ps.
        if url = ''https://graph.facebook.com/v16.0/F1/leads''
        then Response 200 None
               \<lparr> page_data = Some [\<lparr> raw_id = Some ''L1'', raw_created_time = None, field_data = [] \<rparr>],
                 paging_next = Some ''https://graph.facebook.com/v16.0/F1/leads?after=x'' \<rparr>
        else Response 200 None \<lparr> page_data = None, paging_next = None \<rparr>)
     no_lib 3 (base_url_of ''16.0'' ''F1'') (fetch_leads ''token'' ''F1'' ''16.0'' 25 None)
   = Some ([[\<lparr> raw_id = Some ''L1'', raw_created_time = None, field_data = [] \<rparr>], []], None,
           \<lparr> sent = 2, slept = [] \<rparr>)"
  using pagination_yields_each_page [of
     "\<lambda>n url ps.
        if url = ''https://graph.facebook.com/v16.0/F1/leads''
        then Response 200 None
               \<lparr> page_data = Some [\<lparr> raw_id = Some ''L1'', raw_created_time = None, field_data = [] \<rparr>],
                 paging_next = Some ''https://graph.facebook.com/v16.0/F1/leads?after=x'' \<rparr>
        else Response 200 None \<lparr> page_data = None, paging_next = None \<rparr>"
     "''16.0''" "''F1''" "''token''" 25 None
     "[\<lparr> page_data = Some [\<lparr> raw_id = Some ''L1'', raw_created_time = None, field_data = [] \<rparr>],
                 paging_next = Some ''https://graph.facebook.com/v16.0/F1/leads?after=x'' \<rparr>,
       \<lparr> page_data = None, paging_next = None \<rparr>]" no_lib 3]
  by (simp add: base_url_of_def fetch_leads_def leads_of_def or_empty_def)

end
